theory Spec2Isabelle
  imports Complex_Main "HOL-Library.Word"
begin

section \<open>Machine types\<close>

text \<open>
  The program is C++ on an LP64 platform: \<^verbatim>\<open>std::size_t\<close> is an unsigned 64-bit
  integer whose arithmetic wraps around, \<^verbatim>\<open>int\<close> is a signed 32-bit integer.
  A \<^verbatim>\<open>double\<close> is modelled by a real number: sums, quotients and comparisons are
  exact, and the rounding of IEEE-754 arithmetic is not part of this development.
  A quotient by zero is 0 here, where the program computes an infinity or a NaN: with
  no sample there is no mean, and with a mean latency of 0 the throughput is such a
  quotient.
\<close>

type_synonym size_t = "64 word"
type_synonym cint = "32 word"

text \<open>The implicit conversion of an \<^verbatim>\<open>int\<close> to \<^verbatim>\<open>std::size_t\<close> (sign extension).\<close>

definition size_t_of_int :: "cint \<Rightarrow> size_t" where
  "size_t_of_int i = signed i"

section \<open>FLOP model (blas\_functions.h, namespace flops)\<close>

definition dot :: "size_t \<Rightarrow> size_t" where
  "dot n = 2 * n"

definition axpy :: "size_t \<Rightarrow> size_t" where
  "axpy n = 2 * n"

definition scal :: "size_t \<Rightarrow> size_t" where
  "scal n = n"

definition gemv :: "size_t \<Rightarrow> size_t \<Rightarrow> size_t" where
  "gemv m n = 2 * m * n"

definition gemm :: "size_t \<Rightarrow> size_t \<Rightarrow> size_t \<Rightarrow> size_t" where
  "gemm m n k = 2 * m * n * k"

section \<open>Cache evictor (timer.h, flush\_cache)\<close>

text \<open>
  \<^verbatim>\<open>buffer_size = cache_size_bytes * multiplier / sizeof(double)\<close> with
  \<^verbatim>\<open>multiplier = 4\<close> and \<^verbatim>\<open>sizeof(double) = 8\<close>, all in \<^verbatim>\<open>std::size_t\<close>.
\<close>

definition flush_buffer_size :: "size_t \<Rightarrow> size_t" where
  "flush_buffer_size cache_size_bytes = cache_size_bytes * 4 div 8"

text \<open>
  The state of one call of \<^verbatim>\<open>flush_cache\<close>: the buffer, the volatile accumulator
  \<^verbatim>\<open>sum\<close>, and the sequence of element accesses made so far.
\<close>

datatype access = Rd nat | Wr nat

record flush_state =
  buffer :: "real list"
  sum_acc :: real
  accesses :: "access list"

text \<open>One iteration of the loop body: \<^verbatim>\<open>sum += buffer[i]; buffer[i] = (double) i;\<close>\<close>

definition flush_body :: "nat \<Rightarrow> flush_state \<Rightarrow> flush_state" where
  "flush_body i s =
     \<lparr>buffer = (buffer s)[i := real i],
      sum_acc = sum_acc s + buffer s ! i,
      accesses = accesses s @ [Rd i, Wr i]\<rparr>"

text \<open>\<^verbatim>\<open>for (std::size_t i = 0; i < buffer_size; ++i)\<close>\<close>

function flush_loop :: "nat \<Rightarrow> nat \<Rightarrow> flush_state \<Rightarrow> flush_state" where
  "flush_loop i buffer_size s =
     (if i < buffer_size then flush_loop (i + 1) buffer_size (flush_body i s) else s)"
  by pat_completeness auto
termination
  by (relation "measure (\<lambda>(i, buffer_size, s). buffer_size - i)") auto

declare flush_loop.simps [simp del]

text \<open>
  The buffer is a \<^verbatim>\<open>std::vector<double>(buffer_size, 0.0)\<close>; its construction is taken
  to succeed (exhaustion of memory is a matter of the environment).
\<close>

definition flush_cache :: "size_t \<Rightarrow> flush_state" where
  "flush_cache cache_size_bytes =
     (let buffer_size = unat (flush_buffer_size cache_size_bytes)
      in flush_loop 0 buffer_size
           \<lparr>buffer = replicate buffer_size 0, sum_acc = 0, accesses = []\<rparr>)"

text \<open>The number of bytes the buffer of one call occupies.\<close>

definition flush_buffer_bytes :: "size_t \<Rightarrow> nat" where
  "flush_buffer_bytes cache_size_bytes = 8 * unat (flush_buffer_size cache_size_bytes)"

section \<open>Configuration and results (config\_parser.h, system\_info.h, benchmark.h)\<close>

record BenchmarkConfig =
  cfg_threads :: cint
  cfg_cycles :: cint
  cfg_warmup :: cint
  cfg_flush_cache :: bool
  level1_size :: "size_t option"
  level2_size :: "(cint \<times> cint) option"
  level3_size :: "(cint \<times> cint \<times> cint) option"
  output_file :: string
  format :: string
  level1_functions :: "string list"
  level2_functions :: "string list"
  level3_functions :: "string list"
  level1_weights :: "(string \<times> real) list"
  level2_weights :: "(string \<times> real) list"
  level3_weights :: "(string \<times> real) list"

text \<open>\<^verbatim>\<open>ConfigParser::get_default\<close>: the member initialisers, then the five assignments.\<close>

definition get_default :: BenchmarkConfig where
  "get_default =
     \<lparr>cfg_threads = 1, cfg_cycles = 5, cfg_warmup = 3, cfg_flush_cache = True,
      level1_size = Some 1000000,
      level2_size = Some (1024, 1024),
      level3_size = Some (1024, 1024, 1024),
      output_file = [], format = ''markdown'',
      level1_functions = [''cblas_ddot'', ''cblas_daxpy'', ''cblas_dscal''],
      level2_functions = [''cblas_dgemv''],
      level3_functions = [''cblas_dgemm''],
      level1_weights = [], level2_weights = [], level3_weights = []\<rparr>"

record SystemInfo =
  cpu_model :: string
  cpu_cores :: cint
  physical_cores :: cint
  threads_per_core :: cint
  cpu_freq_mhz :: real
  l1_cache :: size_t
  l2_cache :: size_t
  l3_cache :: size_t
  total_memory :: size_t
  os_name :: string

record BenchmarkResult =
  function_name :: string
  config_str :: string
  threads :: cint
  min_time_ms :: real
  avg_time_ms :: real
  max_time_ms :: real
  gflops :: real
  flops :: size_t

record BenchmarkReport =
  system_info :: SystemInfo
  level1_results :: "BenchmarkResult list"
  level2_results :: "BenchmarkResult list"
  level3_results :: "BenchmarkResult list"
  config :: BenchmarkConfig

record BenchmarkRunner =
  m_config :: BenchmarkConfig
  m_cache_size :: size_t

section \<open>The environment of a run\<close>

text \<open>
  The calls the runner makes on the compute backend, the cache evictor, the clock and
  the random data generator, in the order in which they happen.
\<close>

datatype kernel =
    Dot size_t
  | Axpy size_t
  | Scal size_t
  | Gemv size_t size_t
  | Gemm size_t size_t size_t

datatype event =
    SetThreads cint
  | Generate size_t
  | Flush size_t
  | TimerStart
  | Invoke kernel
  | TimerStop

datatype level = Warn | Error

text \<open>
  The world holds what the program reads from its environment and what it does to it:
  \<^item> \<open>timer_us w k\<close> is the number of whole microseconds between the \<open>k\<close>-th
    \<^verbatim>\<open>timer.start()\<close> and the \<^verbatim>\<open>timer.stop()\<close> that follows it, \<open>ticks\<close> counts the
    timed sections so far;
  \<^item> \<open>can_alloc w n\<close> tells whether a \<^verbatim>\<open>std::vector<double>\<close> of \<open>n > 0\<close> elements
    can be created (otherwise \<^verbatim>\<open>std::length_error\<close> or \<^verbatim>\<open>std::bad_alloc\<close> is thrown);
  \<^item> \<open>collected\<close> is what \<^verbatim>\<open>SystemInfoCollector::collect\<close> returns;
  \<^item> \<open>events\<close> is the trace of calls, \<open>log\<close> the messages logged at level
    warn and error (info and debug messages are left out).
\<close>

record world =
  timer_us :: "nat \<Rightarrow> int"
  ticks :: nat
  can_alloc :: "nat \<Rightarrow> bool"
  collected :: SystemInfo
  events :: "event list"
  log :: "(level \<times> string) list"

datatype error =
    AllocFailure nat
  | BadOptionalAccess
  | UndefinedDeref

text \<open>
  \<open>AllocFailure\<close> and \<open>BadOptionalAccess\<close> are C++ exceptions derived from
  \<^verbatim>\<open>std::exception\<close>. \<open>UndefinedDeref\<close> stands for dereferencing the end iterator of an
  empty range, which has undefined behaviour.
\<close>

definition emit :: "event list \<Rightarrow> world \<Rightarrow> world" where
  "emit es w = w\<lparr>events := events w @ es\<rparr>"

definition warn :: "string \<Rightarrow> world \<Rightarrow> world" where
  "warn msg w = w\<lparr>log := log w @ [(Warn, msg)]\<rparr>"

definition log_error :: "string \<Rightarrow> world \<Rightarrow> world" where
  "log_error msg w = w\<lparr>log := log w @ [(Error, msg)]\<rparr>"

text \<open>A vector of no elements allocates nothing.\<close>

definition alloc_ok :: "world \<Rightarrow> nat \<Rightarrow> bool" where
  "alloc_ok w n = (n = 0 \<or> can_alloc w n)"

section \<open>Measurement loop (blas\_functions.cpp)\<close>

text \<open>
  \<^verbatim>\<open>generate_random_data<T>(size)\<close> creates a vector of that many elements and fills it
  with pseudo-random values; the values play no role in what follows.
\<close>

definition generate_random_data :: "size_t \<Rightarrow> world \<Rightarrow> error + world" where
  "generate_random_data sz w =
     (if alloc_ok w (unat sz) then Inr (emit [Generate sz] w)
      else Inl (AllocFailure (unat sz)))"

text \<open>
  A call of \<^verbatim>\<open>utils::flush_cache(cache_size)\<close> as the trace sees it; what happens inside
  is \<^const>\<open>flush_cache\<close>.
\<close>

definition do_flush :: "size_t \<Rightarrow> world \<Rightarrow> error + world" where
  "do_flush cache_size w =
     (let buffer_size = unat (flush_buffer_size cache_size)
      in if alloc_ok w buffer_size then Inr (emit [Flush cache_size] w)
         else Inl (AllocFailure buffer_size))"

text \<open>\<^verbatim>\<open>if (flush_cache) { utils::flush_cache(cache_size); }\<close>\<close>

definition flush_if :: "bool \<Rightarrow> size_t \<Rightarrow> world \<Rightarrow> error + world" where
  "flush_if flush cache_size w = (if flush then do_flush cache_size w else Inr w)"

text \<open>\<^verbatim>\<open>Timer::elapsed_ms\<close>: the microsecond count divided by \<^verbatim>\<open>1000.0\<close>.\<close>

definition elapsed_ms :: "world \<Rightarrow> nat \<Rightarrow> real" where
  "elapsed_ms w k = real_of_int (timer_us w k) / 1000"

text \<open>The operand vectors of each benchmark function, in the order of their creation.\<close>

fun operands :: "kernel \<Rightarrow> size_t list" where
  "operands (Dot n) = [n, n]"
| "operands (Axpy n) = [n, n]"
| "operands (Scal n) = [n]"
| "operands (Gemv m n) = [m * n, n, m]"
| "operands (Gemm m n k) = [m * k, k * n, m * n]"

fun generate_all :: "size_t list \<Rightarrow> world \<Rightarrow> error + world" where
  "generate_all [] w = Inr w"
| "generate_all (sz # sizes) w =
     (case generate_random_data sz w of
        Inl e \<Rightarrow> Inl e
      | Inr w' \<Rightarrow> generate_all sizes w')"

text \<open>The body of the warmup loop: the optional flush, then the untimed call.\<close>

definition warmup_body :: "kernel \<Rightarrow> bool \<Rightarrow> size_t \<Rightarrow> world \<Rightarrow> error + world" where
  "warmup_body k flush cache_size w =
     (case flush_if flush cache_size w of
        Inl e \<Rightarrow> Inl e
      | Inr w' \<Rightarrow> Inr (emit [Invoke k] w'))"

text \<open>\<^verbatim>\<open>for (std::size_t i = 0; i < warmup; ++i)\<close>\<close>

function warmup_loop ::
  "nat \<Rightarrow> nat \<Rightarrow> kernel \<Rightarrow> bool \<Rightarrow> size_t \<Rightarrow> world \<Rightarrow> error + world" where
  "warmup_loop i warmup k flush cache_size w =
     (if i < warmup then
        (case warmup_body k flush cache_size w of
           Inl e \<Rightarrow> Inl e
         | Inr w' \<Rightarrow> warmup_loop (i + 1) warmup k flush cache_size w')
      else Inr w)"
  by pat_completeness auto
termination
  by (relation "measure (\<lambda>(i, warmup, k, flush, cache_size, w). warmup - i)") auto

declare warmup_loop.simps [simp del]

text \<open>
  The body of the timed loop: the optional flush outside the timed section, the call
  between \<^verbatim>\<open>timer.start()\<close> and \<^verbatim>\<open>timer.stop()\<close>, and the elapsed time of the section.
\<close>

definition timed_body :: "kernel \<Rightarrow> bool \<Rightarrow> size_t \<Rightarrow> world \<Rightarrow> error + (real \<times> world)" where
  "timed_body k flush cache_size w =
     (case flush_if flush cache_size w of
        Inl e \<Rightarrow> Inl e
      | Inr w' \<Rightarrow>
          Inr (elapsed_ms w' (ticks w'),
               (emit [TimerStart, Invoke k, TimerStop] w')\<lparr>ticks := ticks w' + 1\<rparr>))"

text \<open>\<^verbatim>\<open>for (std::size_t i = 0; i < cycles; ++i)\<close>, accumulating \<^verbatim>\<open>total_time\<close>.\<close>

function timed_loop ::
  "nat \<Rightarrow> nat \<Rightarrow> kernel \<Rightarrow> bool \<Rightarrow> size_t \<Rightarrow> real \<Rightarrow> world \<Rightarrow> error + (real \<times> world)" where
  "timed_loop i cycles k flush cache_size total_time w =
     (if i < cycles then
        (case timed_body k flush cache_size w of
           Inl e \<Rightarrow> Inl e
         | Inr (t, w') \<Rightarrow> timed_loop (i + 1) cycles k flush cache_size (total_time + t) w')
      else Inr (total_time, w))"
  by pat_completeness auto
termination
  by (relation "measure (\<lambda>(i, cycles, k, flush, cache_size, total_time, w). cycles - i)") auto

declare timed_loop.simps [simp del]

text \<open>
  The five benchmark functions differ in their operands and in the backend routine
  they call, and in nothing else: operands, warmup runs, benchmark runs, and
  \<^verbatim>\<open>return total_time / static_cast<double>(cycles)\<close>. The orchestrator passes
  \<^verbatim>\<open>cycles = 1\<close>.
\<close>

definition benchmark_kernel ::
  "kernel \<Rightarrow> size_t \<Rightarrow> size_t \<Rightarrow> bool \<Rightarrow> size_t \<Rightarrow> world \<Rightarrow> error + (real \<times> world)" where
  "benchmark_kernel k warmup cycles flush cache_size w =
     (case generate_all (operands k) w of
        Inl e \<Rightarrow> Inl e
      | Inr w1 \<Rightarrow>
          (case warmup_loop 0 (unat warmup) k flush cache_size w1 of
             Inl e \<Rightarrow> Inl e
           | Inr w2 \<Rightarrow>
               (case timed_loop 0 (unat cycles) k flush cache_size 0 w2 of
                  Inl e \<Rightarrow> Inl e
                | Inr (total_time, w3) \<Rightarrow> Inr (total_time / real (unat cycles), w3))))"

definition benchmark_dot ::
  "size_t \<Rightarrow> size_t \<Rightarrow> size_t \<Rightarrow> bool \<Rightarrow> size_t \<Rightarrow> world \<Rightarrow> error + (real \<times> world)" where
  "benchmark_dot n = benchmark_kernel (Dot n)"

definition benchmark_axpy ::
  "size_t \<Rightarrow> size_t \<Rightarrow> size_t \<Rightarrow> bool \<Rightarrow> size_t \<Rightarrow> world \<Rightarrow> error + (real \<times> world)" where
  "benchmark_axpy n = benchmark_kernel (Axpy n)"

definition benchmark_scal ::
  "size_t \<Rightarrow> size_t \<Rightarrow> size_t \<Rightarrow> bool \<Rightarrow> size_t \<Rightarrow> world \<Rightarrow> error + (real \<times> world)" where
  "benchmark_scal n = benchmark_kernel (Scal n)"

definition benchmark_gemv ::
  "size_t \<Rightarrow> size_t \<Rightarrow> size_t \<Rightarrow> size_t \<Rightarrow> bool \<Rightarrow> size_t \<Rightarrow> world
     \<Rightarrow> error + (real \<times> world)" where
  "benchmark_gemv m n = benchmark_kernel (Gemv m n)"

definition benchmark_gemm ::
  "size_t \<Rightarrow> size_t \<Rightarrow> size_t \<Rightarrow> size_t \<Rightarrow> size_t \<Rightarrow> bool \<Rightarrow> size_t \<Rightarrow> world
     \<Rightarrow> error + (real \<times> world)" where
  "benchmark_gemm m n k = benchmark_kernel (Gemm m n k)"

section \<open>Result aggregator and orchestrator (benchmark.cpp)\<close>

text \<open>\<^verbatim>\<open>std::format("{}", n)\<close> for an unsigned and for a signed integer.\<close>

fun show_nat :: "nat \<Rightarrow> string" where
  "show_nat n =
     (if n < 10 then [''0123456789'' ! n]
      else show_nat (n div 10) @ [''0123456789'' ! (n mod 10)])"

declare show_nat.simps [simp del]

definition show_int :: "int \<Rightarrow> string" where
  "show_int i = (if i < 0 then CHR ''-'' # show_nat (nat (- i)) else show_nat (nat i))"

text \<open>
  \<^verbatim>\<open>*std::min_element(first, last)\<close> and \<^verbatim>\<open>*std::max_element(first, last)\<close>: the scan keeps
  the first smallest (largest) element; on an empty range the iterator returned is
  \<open>last\<close>, which must not be dereferenced (\<open>None\<close>).
\<close>

fun min_scan :: "real \<Rightarrow> real list \<Rightarrow> real" where
  "min_scan smallest [] = smallest"
| "min_scan smallest (x # xs) = min_scan (if x < smallest then x else smallest) xs"

fun max_scan :: "real \<Rightarrow> real list \<Rightarrow> real" where
  "max_scan largest [] = largest"
| "max_scan largest (x # xs) = max_scan (if largest < x then x else largest) xs"

definition min_element :: "real list \<Rightarrow> real option" where
  "min_element tms = (case tms of [] \<Rightarrow> None | x # xs \<Rightarrow> Some (min_scan x xs))"

definition max_element :: "real list \<Rightarrow> real option" where
  "max_element tms = (case tms of [] \<Rightarrow> None | x # xs \<Rightarrow> Some (max_scan x xs))"

text \<open>\<^verbatim>\<open>std::accumulate(first, last, init)\<close>\<close>

fun accumulate :: "real list \<Rightarrow> real \<Rightarrow> real" where
  "accumulate [] init = init"
| "accumulate (x # xs) init = accumulate xs (init + x)"

text \<open>
  The constructor of \<^verbatim>\<open>BenchmarkRunner\<close>: the sum of the three cache sizes, replaced by
  16 MiB when it is below 1 MiB.
\<close>

definition BenchmarkRunner_new :: "BenchmarkConfig \<Rightarrow> world \<Rightarrow> BenchmarkRunner" where
  "BenchmarkRunner_new cfg w =
     (let sys_info = collected w;
          cache_size = l1_cache sys_info + l2_cache sys_info + l3_cache sys_info
      in \<lparr>m_config = cfg,
          m_cache_size = (if cache_size < 1024 * 1024 then 16 * 1024 * 1024 else cache_size)\<rparr>)"

definition set_threads :: "cint \<Rightarrow> world \<Rightarrow> world" where
  "set_threads num_threads w = emit [SetThreads num_threads] w"

text \<open>
  The loop of \<^verbatim>\<open>run_single_benchmark\<close>:
  \<^verbatim>\<open>for (int i = 0; i < m_config.cycles; ++i) times.push_back(benchmark_func());\<close>
\<close>

function collect_times ::
  "int \<Rightarrow> int \<Rightarrow> (world \<Rightarrow> error + (real \<times> world)) \<Rightarrow> real list \<Rightarrow> world
     \<Rightarrow> error + (real list \<times> world)" where
  "collect_times i cycles benchmark_func tms w =
     (if i < cycles then
        (case benchmark_func w of
           Inl e \<Rightarrow> Inl e
         | Inr (time_ms, w') \<Rightarrow>
             collect_times (i + 1) cycles benchmark_func (tms @ [time_ms]) w')
      else Inr (tms, w))"
  by pat_completeness auto
termination
  by (relation "measure (\<lambda>(i, cycles, benchmark_func, tms, w). nat (cycles - i))") auto

declare collect_times.simps [simp del]

text \<open>
  The statistics of \<^verbatim>\<open>run_single_benchmark\<close>, in the order of the source: the fields
  set from the arguments, then \<^verbatim>\<open>*std::min_element\<close>, \<^verbatim>\<open>*std::max_element\<close>,
  \<^verbatim>\<open>std::accumulate(..., 0.0) / times.size()\<close>, and the throughput
  \<^verbatim>\<open>time_sec = avg_time_ms / 1000.0; gflops = (double) flops_count / (time_sec * 1e9)\<close>.
\<close>

definition compute_gflops :: "size_t \<Rightarrow> real \<Rightarrow> real" where
  "compute_gflops flops_count avg_time =
     (let time_sec = avg_time / 1000
      in real (unat flops_count) / (time_sec * 1000000000))"

definition summarize ::
  "BenchmarkRunner \<Rightarrow> string \<Rightarrow> string \<Rightarrow> size_t \<Rightarrow> real list \<Rightarrow> error + BenchmarkResult" where
  "summarize runner name cfg_str flops_count tms =
     (case (min_element tms, max_element tms) of
        (Some min_time, Some max_time) \<Rightarrow>
          (let avg_time = accumulate tms 0 / real (length tms)
           in Inr \<lparr>function_name = name,
                   config_str = cfg_str,
                   threads = cfg_threads (m_config runner),
                   min_time_ms = min_time,
                   avg_time_ms = avg_time,
                   max_time_ms = max_time,
                   gflops = compute_gflops flops_count avg_time,
                   flops = flops_count\<rparr>)
      | _ \<Rightarrow> Inl UndefinedDeref)"

text \<open>
  \<^verbatim>\<open>run_single_benchmark\<close>: \<^verbatim>\<open>times.reserve(m_config.cycles)\<close> converts the \<^verbatim>\<open>int\<close> to
  \<^verbatim>\<open>std::size_t\<close>; the loop collects one time for each cycle; the statistics follow.
\<close>

definition run_single_benchmark ::
  "BenchmarkRunner \<Rightarrow> string \<Rightarrow> string \<Rightarrow> (world \<Rightarrow> error + (real \<times> world)) \<Rightarrow> size_t
     \<Rightarrow> world \<Rightarrow> error + (BenchmarkResult \<times> world)" where
  "run_single_benchmark runner name cfg_str benchmark_func flops_count w =
     (let cycles = cfg_cycles (m_config runner);
          reserved = unat (size_t_of_int cycles)
      in if \<not> alloc_ok w reserved then Inl (AllocFailure reserved)
         else
           (case collect_times 0 (sint cycles) benchmark_func [] w of
              Inl e \<Rightarrow> Inl e
            | Inr (tms, w') \<Rightarrow>
                (case summarize runner name cfg_str flops_count tms of
                   Inl e \<Rightarrow> Inl e
                 | Inr result \<Rightarrow> Inr (result, w'))))"

text \<open>
  The three level functions share one loop over the configured names: a recognised
  name runs its benchmark and appends the result to the level's results, any other
  name logs a warning and the loop continues. \<open>dispatch\<close> is the
  \<^verbatim>\<open>if\<close>/\<^verbatim>\<open>else if\<close> chain of string comparisons of the level, \<open>push\<close> the
  \<^verbatim>\<open>push_back\<close> on the level's result vector.
\<close>

fun level_loop ::
  "(string \<Rightarrow> (world \<Rightarrow> error + (BenchmarkResult \<times> world)) option) \<Rightarrow> string
     \<Rightarrow> (BenchmarkResult \<Rightarrow> BenchmarkReport \<Rightarrow> BenchmarkReport)
     \<Rightarrow> string list \<Rightarrow> BenchmarkReport \<Rightarrow> world \<Rightarrow> error + (BenchmarkReport \<times> world)" where
  "level_loop dispatch unknown push [] report w = Inr (report, w)"
| "level_loop dispatch unknown push (func_name # rest) report w =
     (case dispatch func_name of
        Some run \<Rightarrow>
          (case run w of
             Inl e \<Rightarrow> Inl e
           | Inr (result, w') \<Rightarrow> level_loop dispatch unknown push rest (push result report) w')
      | None \<Rightarrow> level_loop dispatch unknown push rest report (warn (unknown @ func_name) w))"

definition level1_dispatch ::
  "BenchmarkRunner \<Rightarrow> size_t \<Rightarrow> string \<Rightarrow> string
     \<Rightarrow> (world \<Rightarrow> error + (BenchmarkResult \<times> world)) option" where
  "level1_dispatch runner n cfg_str func_name =
     (let cfg = m_config runner;
          warmup = size_t_of_int (cfg_warmup cfg);
          flush = cfg_flush_cache cfg;
          cache_size = m_cache_size runner
      in if func_name = ''cblas_ddot'' then
           Some (run_single_benchmark runner ''ddot'' cfg_str
                   (benchmark_dot n warmup 1 flush cache_size) (dot n))
         else if func_name = ''cblas_daxpy'' then
           Some (run_single_benchmark runner ''daxpy'' cfg_str
                   (benchmark_axpy n warmup 1 flush cache_size) (axpy n))
         else if func_name = ''cblas_dscal'' then
           Some (run_single_benchmark runner ''dscal'' cfg_str
                   (benchmark_scal n warmup 1 flush cache_size) (scal n))
         else None)"

definition level2_dispatch ::
  "BenchmarkRunner \<Rightarrow> cint \<Rightarrow> cint \<Rightarrow> string \<Rightarrow> string
     \<Rightarrow> (world \<Rightarrow> error + (BenchmarkResult \<times> world)) option" where
  "level2_dispatch runner m n cfg_str func_name =
     (let cfg = m_config runner;
          warmup = size_t_of_int (cfg_warmup cfg);
          flush = cfg_flush_cache cfg;
          cache_size = m_cache_size runner
      in if func_name = ''cblas_dgemv'' then
           Some (run_single_benchmark runner ''dgemv'' cfg_str
                   (benchmark_gemv (size_t_of_int m) (size_t_of_int n) warmup 1 flush cache_size)
                   (gemv (size_t_of_int m) (size_t_of_int n)))
         else None)"

definition level3_dispatch ::
  "BenchmarkRunner \<Rightarrow> cint \<Rightarrow> cint \<Rightarrow> cint \<Rightarrow> string \<Rightarrow> string
     \<Rightarrow> (world \<Rightarrow> error + (BenchmarkResult \<times> world)) option" where
  "level3_dispatch runner m n k cfg_str func_name =
     (let cfg = m_config runner;
          warmup = size_t_of_int (cfg_warmup cfg);
          flush = cfg_flush_cache cfg;
          cache_size = m_cache_size runner
      in if func_name = ''cblas_dgemm'' then
           Some (run_single_benchmark runner ''dgemm'' cfg_str
                   (benchmark_gemm (size_t_of_int m) (size_t_of_int n) (size_t_of_int k)
                      warmup 1 flush cache_size)
                   (gemm (size_t_of_int m) (size_t_of_int n) (size_t_of_int k)))
         else None)"

definition push_level1 :: "BenchmarkResult \<Rightarrow> BenchmarkReport \<Rightarrow> BenchmarkReport" where
  "push_level1 result report = report\<lparr>level1_results := level1_results report @ [result]\<rparr>"

definition push_level2 :: "BenchmarkResult \<Rightarrow> BenchmarkReport \<Rightarrow> BenchmarkReport" where
  "push_level2 result report = report\<lparr>level2_results := level2_results report @ [result]\<rparr>"

definition push_level3 :: "BenchmarkResult \<Rightarrow> BenchmarkReport \<Rightarrow> BenchmarkReport" where
  "push_level3 result report = report\<lparr>level3_results := level3_results report @ [result]\<rparr>"

text \<open>\<^verbatim>\<open>level1_size.value()\<close> throws \<^verbatim>\<open>std::bad_optional_access\<close> on an empty optional.\<close>

definition run_level1 ::
  "BenchmarkRunner \<Rightarrow> BenchmarkReport \<Rightarrow> world \<Rightarrow> error + (BenchmarkReport \<times> world)" where
  "run_level1 runner report w =
     (case level1_size (m_config runner) of
        None \<Rightarrow> Inl BadOptionalAccess
      | Some n \<Rightarrow>
          level_loop (level1_dispatch runner n (''N='' @ show_nat (unat n)))
            ''Unknown Level 1 function: '' push_level1
            (level1_functions (m_config runner)) report w)"

definition run_level2 ::
  "BenchmarkRunner \<Rightarrow> BenchmarkReport \<Rightarrow> world \<Rightarrow> error + (BenchmarkReport \<times> world)" where
  "run_level2 runner report w =
     (case level2_size (m_config runner) of
        None \<Rightarrow> Inl BadOptionalAccess
      | Some (m, n) \<Rightarrow>
          level_loop
            (level2_dispatch runner m n
               (''M='' @ show_int (sint m) @ '',N='' @ show_int (sint n)))
            ''Unknown Level 2 function: '' push_level2
            (level2_functions (m_config runner)) report w)"

definition run_level3 ::
  "BenchmarkRunner \<Rightarrow> BenchmarkReport \<Rightarrow> world \<Rightarrow> error + (BenchmarkReport \<times> world)" where
  "run_level3 runner report w =
     (case level3_size (m_config runner) of
        None \<Rightarrow> Inl BadOptionalAccess
      | Some (m, n, k) \<Rightarrow>
          level_loop
            (level3_dispatch runner m n k
               (''M='' @ show_int (sint m) @ '',N='' @ show_int (sint n)
                  @ '',K='' @ show_int (sint k)))
            ''Unknown Level 3 function: '' push_level3
            (level3_functions (m_config runner)) report w)"

text \<open>
  \<^verbatim>\<open>run_all\<close>: the thread count is set once, then each level runs when it has a size
  and a non-empty list of functions.
\<close>

definition run_all :: "BenchmarkRunner \<Rightarrow> world \<Rightarrow> error + (BenchmarkReport \<times> world)" where
  "run_all runner w =
     (let cfg = m_config runner;
          report = \<lparr>system_info = collected w, level1_results = [], level2_results = [],
                    level3_results = [], config = cfg\<rparr>;
          w0 = set_threads (cfg_threads cfg) w
      in case (if level1_size cfg \<noteq> None \<and> level1_functions cfg \<noteq> []
               then run_level1 runner report w0 else Inr (report, w0)) of
           Inl e \<Rightarrow> Inl e
         | Inr (report1, w1) \<Rightarrow>
             (case (if level2_size cfg \<noteq> None \<and> level2_functions cfg \<noteq> []
                    then run_level2 runner report1 w1 else Inr (report1, w1)) of
                Inl e \<Rightarrow> Inl e
              | Inr (report2, w2) \<Rightarrow>
                  (if level3_size cfg \<noteq> None \<and> level3_functions cfg \<noteq> []
                   then run_level3 runner report2 w2 else Inr (report2, w2))))"

section \<open>The program (main.cpp)\<close>

text \<open>
  The command line after \<^verbatim>\<open>app.parse\<close> has succeeded. \<^verbatim>\<open>std::stoi\<close> and \<^verbatim>\<open>std::stoull\<close>
  belong to the standard library and are parameters: \<open>None\<close> stands for the exception
  they throw on a string that is not a number of the type.
\<close>

record cli_args =
  arg_threads :: cint
  arg_cycles :: cint
  arg_warmup :: cint
  level1_str :: string
  level2_str :: string
  level3_str :: string
  arg_output_file :: string
  arg_format :: string
  show_system_info :: bool

record stdlib =
  stoi :: "string \<Rightarrow> cint option"
  stoull :: "string \<Rightarrow> size_t option"
  can_open :: "string \<Rightarrow> bool"

text \<open>\<^verbatim>\<open>str.find(',', from)\<close>: the position of the first comma at or after \<open>from\<close>.\<close>

fun find_comma :: "string \<Rightarrow> nat \<Rightarrow> nat option" where
  "find_comma str from =
     (case dropWhile (\<lambda>c. c \<noteq> CHR '','') (drop from str) of
        [] \<Rightarrow> None
      | _ # _ \<Rightarrow> Some (from + length (takeWhile (\<lambda>c. c \<noteq> CHR '','') (drop from str))))"

text \<open>\<^verbatim>\<open>str.substr(pos, count)\<close> and \<^verbatim>\<open>str.substr(pos)\<close> for \<open>pos\<close> within the string.\<close>

definition substr :: "string \<Rightarrow> nat \<Rightarrow> nat \<Rightarrow> string" where
  "substr str pos count = take count (drop pos str)"

definition parse_size_pair :: "stdlib \<Rightarrow> string \<Rightarrow> (cint \<times> cint) option" where
  "parse_size_pair lib str =
     (case find_comma str 0 of
        None \<Rightarrow> None
      | Some pos \<Rightarrow>
          (case stoi lib (substr str 0 pos) of
             None \<Rightarrow> None
           | Some m \<Rightarrow>
               (case stoi lib (drop (pos + 1) str) of
                  None \<Rightarrow> None
                | Some n \<Rightarrow> Some (m, n))))"

definition parse_size_triple :: "stdlib \<Rightarrow> string \<Rightarrow> (cint \<times> cint \<times> cint) option" where
  "parse_size_triple lib str =
     (case find_comma str 0 of
        None \<Rightarrow> None
      | Some pos1 \<Rightarrow>
          (case find_comma str (pos1 + 1) of
             None \<Rightarrow> None
           | Some pos2 \<Rightarrow>
               (case stoi lib (substr str 0 pos1) of
                  None \<Rightarrow> None
                | Some m \<Rightarrow>
                    (case stoi lib (substr str (pos1 + 1) (pos2 - pos1 - 1)) of
                       None \<Rightarrow> None
                     | Some n \<Rightarrow>
                         (case stoi lib (drop (pos2 + 1) str) of
                            None \<Rightarrow> None
                          | Some k \<Rightarrow> Some (m, n, k))))))"

text \<open>
  The configuration file as \<^verbatim>\<open>parse_string\<close> reads it (config\_parser.cpp): three
  optional sections; in each, a key is absent (\<open>None\<close>) or holds the value that
  \<^verbatim>\<open>value_or\<close> returns for it. \<open>d_level2\<close> and \<open>d_level3\<close> are present when all the
  keys of the size are.
\<close>

datatype toml_functions =
  Functions (f_level1: "string list option") (f_level2: "string list option")
    (f_level3: "string list option")

datatype toml_weights =
  Weights (w_level1: "(string \<times> real) list option") (w_level2: "(string \<times> real) list option")
    (w_level3: "(string \<times> real) list option")

datatype toml_defaults =
  Defaults (d_threads: "cint option") (d_warmup: "cint option") (d_cycles: "cint option")
    (d_flush_cache: "bool option") (d_level1_size: "cint option")
    (d_level2: "(cint \<times> cint) option") (d_level3: "(cint \<times> cint \<times> cint) option")

datatype toml_doc =
  Toml (t_functions: "toml_functions option") (t_weights: "toml_weights option")
    (t_defaults: "toml_defaults option")

definition or_else :: "'a option \<Rightarrow> 'a \<Rightarrow> 'a" where
  "or_else x d = (case x of None \<Rightarrow> d | Some v \<Rightarrow> v)"

definition parse_functions :: "toml_functions \<Rightarrow> BenchmarkConfig \<Rightarrow> BenchmarkConfig" where
  "parse_functions f cfg =
     cfg\<lparr>level1_functions := or_else (f_level1 f) (level1_functions cfg),
         level2_functions := or_else (f_level2 f) (level2_functions cfg),
         level3_functions := or_else (f_level3 f) (level3_functions cfg)\<rparr>"

definition parse_weights :: "toml_weights \<Rightarrow> BenchmarkConfig \<Rightarrow> BenchmarkConfig" where
  "parse_weights x cfg =
     cfg\<lparr>level1_weights := or_else (w_level1 x) (level1_weights cfg),
         level2_weights := or_else (w_level2 x) (level2_weights cfg),
         level3_weights := or_else (w_level3 x) (level3_weights cfg)\<rparr>"

definition parse_defaults :: "toml_defaults \<Rightarrow> BenchmarkConfig \<Rightarrow> BenchmarkConfig" where
  "parse_defaults d cfg =
     cfg\<lparr>cfg_threads := or_else (d_threads d) (cfg_threads cfg),
         cfg_warmup := or_else (d_warmup d) (cfg_warmup cfg),
         cfg_cycles := or_else (d_cycles d) (cfg_cycles cfg),
         cfg_flush_cache := or_else (d_flush_cache d) (cfg_flush_cache cfg),
         level1_size :=
           (case d_level1_size d of
              None \<Rightarrow> level1_size cfg
            | Some n \<Rightarrow> Some (size_t_of_int n)),
         level2_size := (case d_level2 d of None \<Rightarrow> level2_size cfg | Some mn \<Rightarrow> Some mn),
         level3_size := (case d_level3 d of None \<Rightarrow> level3_size cfg | Some mnk \<Rightarrow> Some mnk)\<rparr>"

text \<open>\<^verbatim>\<open>parse_string\<close> starts from \<^verbatim>\<open>get_default()\<close> and overlays the sections present.\<close>

definition parse_string :: "toml_doc \<Rightarrow> BenchmarkConfig" where
  "parse_string doc =
     (let cfg1 = (case t_functions doc of None \<Rightarrow> get_default | Some f \<Rightarrow> parse_functions f get_default);
          cfg2 = (case t_weights doc of None \<Rightarrow> cfg1 | Some x \<Rightarrow> parse_weights x cfg1)
      in case t_defaults doc of None \<Rightarrow> cfg2 | Some d \<Rightarrow> parse_defaults d cfg2)"

text \<open>
  The configuration the program starts from: \<^verbatim>\<open>parse_file\<close> of the configuration file
  when it exists and parses (\<open>Some\<close>), and \<^verbatim>\<open>get_default()\<close> otherwise; then the command
  line overrides the execution parameters.
\<close>

definition load_config :: "cli_args \<Rightarrow> toml_doc option \<Rightarrow> BenchmarkConfig" where
  "load_config args file =
     (case file of None \<Rightarrow> get_default | Some doc \<Rightarrow> parse_string doc)
       \<lparr>cfg_threads := arg_threads args,
        cfg_cycles := arg_cycles args,
        cfg_warmup := arg_warmup args,
        output_file := arg_output_file args,
        format := arg_format args\<rparr>"

text \<open>The check \<^verbatim>\<open>// Validate at least one benchmark is configured\<close>.\<close>

definition no_sizes :: "BenchmarkConfig \<Rightarrow> bool" where
  "no_sizes cfg = (level1_size cfg = None \<and> level2_size cfg = None \<and> level3_size cfg = None)"

text \<open>
  The \<^verbatim>\<open>try\<close> block at the end of \<^verbatim>\<open>main\<close>: an exception makes the program log an error
  and return 1; undefined behaviour is not an exception and is not caught. After an
  exception only the logged message (without the text of the exception) is kept of
  what the run did. The rendering of the report is left out; writing it fails when the
  output file cannot be opened.
\<close>

definition run_benchmarks :: "stdlib \<Rightarrow> BenchmarkConfig \<Rightarrow> world \<Rightarrow> error + (int \<times> world)" where
  "run_benchmarks lib cfg w =
     (case run_all (BenchmarkRunner_new cfg w) w of
        Inl UndefinedDeref \<Rightarrow> Inl UndefinedDeref
      | Inl e \<Rightarrow> Inr (1, log_error ''Benchmark failed'' w)
      | Inr (report, w') \<Rightarrow>
          (if output_file cfg = [] \<or> can_open lib (output_file cfg) then Inr (0, w')
           else Inr (1, log_error ''Benchmark failed'' w')))"

text \<open>
  \<^verbatim>\<open>main\<close>, from the point where the command line has been parsed. The result is the
  exit status, or \<open>Inl UndefinedDeref\<close> when the run has undefined behaviour.
\<close>

definition main ::
  "stdlib \<Rightarrow> cli_args \<Rightarrow> toml_doc option \<Rightarrow> world \<Rightarrow> error + (int \<times> world)" where
  "main lib args file w =
     (if show_system_info args then Inr (0, w)
      else
        (let cfg0 = load_config args file;
             l1 = (if level1_str args = [] then Some (level1_size cfg0)
                   else map_option Some (stoull lib (level1_str args)))
         in case l1 of
              None \<Rightarrow> Inr (1, log_error (''Invalid level1 size: '' @ level1_str args) w)
            | Some size1 \<Rightarrow>
                (let cfg1 = cfg0\<lparr>level1_size := size1\<rparr>;
                     l2 = (if level2_str args = [] then Some (level2_size cfg1)
                           else map_option Some (parse_size_pair lib (level2_str args)))
                 in case l2 of
                      None \<Rightarrow>
                        Inr (1, log_error (''Invalid level2 size format: '' @ level2_str args
                                             @ ''. Expected M,N'') w)
                    | Some size2 \<Rightarrow>
                        (let cfg2 = cfg1\<lparr>level2_size := size2\<rparr>;
                             l3 = (if level3_str args = [] then Some (level3_size cfg2)
                                   else map_option Some
                                          (parse_size_triple lib (level3_str args)))
                         in case l3 of
                              None \<Rightarrow>
                                Inr (1, log_error (''Invalid level3 size format: ''
                                                     @ level3_str args
                                                     @ ''. Expected M,N,K'') w)
                            | Some size3 \<Rightarrow>
                                (let cfg = cfg2\<lparr>level3_size := size3\<rparr>
                                 in if no_sizes cfg then
                                      Inr (1, log_error
                                             (''No benchmark sizes specified. Use --level1, ''
                                                @ ''--level2, or --level3 options.'') w)
                                    else run_benchmarks lib cfg w)))))"

section \<open>Notions used in the statements\<close>

text \<open>The number of calls of a backend routine in a trace.\<close>

fun is_invoke :: "event \<Rightarrow> bool" where
  "is_invoke (Invoke k) = True"
| "is_invoke e = False"

definition invocations :: "event list \<Rightarrow> nat" where
  "invocations es = length (filter is_invoke es)"

text \<open>The world after further events and further timed sections.\<close>

definition after :: "event list \<Rightarrow> nat \<Rightarrow> world \<Rightarrow> world" where
  "after es n w = w\<lparr>ticks := ticks w + n, events := events w @ es\<rparr>"

text \<open>The trace of one untimed and of one timed execution, and of one round.\<close>

definition flush_events :: "bool \<Rightarrow> size_t \<Rightarrow> event list" where
  "flush_events flush cache_size = (if flush then [Flush cache_size] else [])"

definition warm_events :: "kernel \<Rightarrow> bool \<Rightarrow> size_t \<Rightarrow> event list" where
  "warm_events k flush cache_size = flush_events flush cache_size @ [Invoke k]"

definition timed_events :: "kernel \<Rightarrow> bool \<Rightarrow> size_t \<Rightarrow> event list" where
  "timed_events k flush cache_size =
     flush_events flush cache_size @ [TimerStart, Invoke k, TimerStop]"

definition loop_events :: "kernel \<Rightarrow> nat \<Rightarrow> nat \<Rightarrow> bool \<Rightarrow> size_t \<Rightarrow> event list" where
  "loop_events k W C flush cache_size =
     map Generate (operands k)
       @ concat (replicate W (warm_events k flush cache_size))
       @ concat (replicate C (timed_events k flush cache_size))"

text \<open>The elapsed times of the next \<open>C\<close> timed sections.\<close>

definition next_times :: "world \<Rightarrow> nat \<Rightarrow> real list" where
  "next_times w C = map (elapsed_ms w) [ticks w..<ticks w + C]"

text \<open>The buffers of a benchmark of kernel \<open>k\<close> can be created.\<close>

definition flush_fits :: "world \<Rightarrow> bool \<Rightarrow> size_t \<Rightarrow> bool" where
  "flush_fits w flush cache_size = (flush \<longrightarrow> alloc_ok w (unat (flush_buffer_size cache_size)))"

definition fits :: "world \<Rightarrow> kernel \<Rightarrow> bool \<Rightarrow> size_t \<Rightarrow> bool" where
  "fits w k flush cache_size =
     (list_all (\<lambda>sz. alloc_ok w (unat sz)) (operands k) \<and> flush_fits w flush cache_size)"

text \<open>
  A world for the examples: the \<open>k\<close>-th timed section takes \<open>k + 1\<close> milliseconds, vectors
  of up to \<open>2 ^ 40\<close> elements can be created, and the caches are of common sizes.
\<close>

definition example_world :: world where
  "example_world =
     \<lparr>timer_us = (\<lambda>k. 1000 * (int k + 1)),
      ticks = 0,
      can_alloc = (\<lambda>n. n \<le> 2 ^ 40),
      collected =
        \<lparr>cpu_model = ''cpu'', cpu_cores = 8, physical_cores = 4, threads_per_core = 2,
         cpu_freq_mhz = 3000, l1_cache = 32768, l2_cache = 262144, l3_cache = 8388608,
         total_memory = 17179869184, os_name = ''Linux''\<rparr>,
      events = [],
      log = []\<rparr>"

text \<open>The options of the command line at their default values.\<close>

definition cli_defaults :: cli_args where
  "cli_defaults =
     \<lparr>arg_threads = 1, arg_cycles = 5, arg_warmup = 3,
      level1_str = [], level2_str = [], level3_str = [],
      arg_output_file = [], arg_format = ''markdown'',
      show_system_info = False\<rparr>"

text \<open>
  The three levels side by side: the names each level recognises, its part of the
  configuration and of the report, its function, the text of its warning, and the
  kernels it runs for the configured size.
\<close>

datatype blas_level = Level1 | Level2 | Level3

fun known_names :: "blas_level \<Rightarrow> string list" where
  "known_names Level1 = [''cblas_ddot'', ''cblas_daxpy'', ''cblas_dscal'']"
| "known_names Level2 = [''cblas_dgemv'']"
| "known_names Level3 = [''cblas_dgemm'']"

fun has_size :: "blas_level \<Rightarrow> BenchmarkConfig \<Rightarrow> bool" where
  "has_size Level1 cfg = (level1_size cfg \<noteq> None)"
| "has_size Level2 cfg = (level2_size cfg \<noteq> None)"
| "has_size Level3 cfg = (level3_size cfg \<noteq> None)"

fun level_functions :: "blas_level \<Rightarrow> BenchmarkConfig \<Rightarrow> string list" where
  "level_functions Level1 cfg = level1_functions cfg"
| "level_functions Level2 cfg = level2_functions cfg"
| "level_functions Level3 cfg = level3_functions cfg"

fun level_results :: "blas_level \<Rightarrow> BenchmarkReport \<Rightarrow> BenchmarkResult list" where
  "level_results Level1 report = level1_results report"
| "level_results Level2 report = level2_results report"
| "level_results Level3 report = level3_results report"

fun run_level ::
  "blas_level \<Rightarrow> BenchmarkRunner \<Rightarrow> BenchmarkReport \<Rightarrow> world
     \<Rightarrow> error + (BenchmarkReport \<times> world)" where
  "run_level Level1 = run_level1"
| "run_level Level2 = run_level2"
| "run_level Level3 = run_level3"

fun unknown_text :: "blas_level \<Rightarrow> string" where
  "unknown_text Level1 = ''Unknown Level 1 function: ''"
| "unknown_text Level2 = ''Unknown Level 2 function: ''"
| "unknown_text Level3 = ''Unknown Level 3 function: ''"

fun level_kernels :: "blas_level \<Rightarrow> BenchmarkConfig \<Rightarrow> kernel list" where
  "level_kernels Level1 cfg =
     (case level1_size cfg of None \<Rightarrow> [] | Some n \<Rightarrow> [Dot n, Axpy n, Scal n])"
| "level_kernels Level2 cfg =
     (case level2_size cfg of
        None \<Rightarrow> []
      | Some (m, n) \<Rightarrow> [Gemv (size_t_of_int m) (size_t_of_int n)])"
| "level_kernels Level3 cfg =
     (case level3_size cfg of
        None \<Rightarrow> []
      | Some (m, n, k) \<Rightarrow> [Gemm (size_t_of_int m) (size_t_of_int n) (size_t_of_int k)])"

text \<open>The buffers of every benchmark of the level and the vector of times can be created.\<close>

definition level_room :: "blas_level \<Rightarrow> BenchmarkRunner \<Rightarrow> world \<Rightarrow> bool" where
  "level_room lvl runner w =
     (list_all (\<lambda>k. fits w k (cfg_flush_cache (m_config runner)) (m_cache_size runner))
        (level_kernels lvl (m_config runner)) \<and>
      alloc_ok w (unat (size_t_of_int (cfg_cycles (m_config runner)))))"




section \<open>Properties of the world\<close>

lemma after_simps [simp]:
  "timer_us (after es n w) = timer_us w"
  "ticks (after es n w) = ticks w + n"
  "can_alloc (after es n w) = can_alloc w"
  "collected (after es n w) = collected w"
  "events (after es n w) = events w @ es"
  "log (after es n w) = log w"
  by (simp_all add: after_def)

lemma after_after [simp]: "after es n (after es' n' w) = after (es' @ es) (n' + n) w"
  by (simp add: after_def)

lemma after_nothing [simp]: "after [] 0 w = w"
  by (simp add: after_def)

lemma emit_after: "emit es w = after es 0 w"
  by (simp add: emit_def after_def)

lemma alloc_ok_after [simp]: "alloc_ok (after es n w) m = alloc_ok w m"
  by (simp add: alloc_ok_def)

lemma elapsed_ms_after [simp]: "elapsed_ms (after es n w) = elapsed_ms w"
  by (rule ext) (simp add: elapsed_ms_def)

lemma flush_fits_after [simp]: "flush_fits (after es n w) flush cs = flush_fits w flush cs"
  by (simp add: flush_fits_def)

lemma fits_after [simp]: "fits (after es n w) k flush cs = fits w k flush cs"
  by (simp add: fits_def)

lemma invocations_append [simp]: "invocations (es @ es') = invocations es + invocations es'"
  by (simp add: invocations_def)

lemma invocations_concat_replicate [simp]:
  "invocations (concat (replicate n es)) = n * invocations es"
  by (induction n) (simp_all add: invocations_def)

section \<open>The measurement loop runs to completion\<close>

lemma generate_all_ok:
  "list_all (\<lambda>sz. alloc_ok w (unat sz)) sizes \<Longrightarrow>
   generate_all sizes w = Inr (after (map Generate sizes) 0 w)"
proof (induction sizes arbitrary: w)
  case Nil
  then show ?case by simp
next
  case (Cons sz sizes)
  then show ?case
    by (simp add: generate_random_data_def emit_after)
qed

lemma flush_if_ok:
  "flush_fits w flush cs \<Longrightarrow> flush_if flush cs w = Inr (after (flush_events flush cs) 0 w)"
  by (simp add: flush_if_def do_flush_def flush_fits_def flush_events_def emit_after Let_def)

lemma warmup_body_ok:
  "flush_fits w flush cs \<Longrightarrow> warmup_body k flush cs w = Inr (after (warm_events k flush cs) 0 w)"
  by (simp add: warmup_body_def flush_if_ok warm_events_def emit_after)

lemma timed_body_ok:
  "flush_fits w flush cs \<Longrightarrow>
   timed_body k flush cs w = Inr (elapsed_ms w (ticks w), after (timed_events k flush cs) 1 w)"
  by (simp add: timed_body_def flush_if_ok timed_events_def emit_after; simp add: after_def)

lemma warmup_loop_ok:
  "flush_fits w flush cs \<Longrightarrow>
   warmup_loop i n k flush cs w =
     Inr (after (concat (replicate (n - i) (warm_events k flush cs))) 0 w)"
proof (induction i n k flush cs w rule: warmup_loop.induct)
  case (1 i n k flush cs w)
  show ?case
  proof (cases "i < n")
    case True
    then have "n - i = Suc (n - (i + 1))"
      by simp
    then show ?thesis
      using True "1.prems" "1.IH" [OF True warmup_body_ok [OF "1.prems"]]
      by (subst warmup_loop.simps) (simp add: warmup_body_ok)
  next
    case False
    then show ?thesis
      by (subst warmup_loop.simps) simp
  qed
qed

lemma timed_loop_ok:
  "flush_fits w flush cs \<Longrightarrow>
   timed_loop i n k flush cs acc w =
     Inr (acc + sum_list (next_times w (n - i)),
          after (concat (replicate (n - i) (timed_events k flush cs))) (n - i) w)"
proof (induction i n k flush cs acc w rule: timed_loop.induct)
  case (1 i n k flush cs acc w)
  show ?case
  proof (cases "i < n")
    case True
    then have *: "n - i = Suc (n - (i + 1))"
      by simp
    have nt: "next_times w (Suc m) =
        elapsed_ms w (ticks w) # next_times (after (timed_events k flush cs) 1 w) m" for m
      by (simp add: next_times_def upt_conv_Cons del: upt_Suc)
    show ?thesis
      using True "1.prems" "1.IH" [OF True timed_body_ok [OF "1.prems"] refl]
      by (subst timed_loop.simps) (simp add: timed_body_ok * nt)
  next
    case False
    then show ?thesis
      by (subst timed_loop.simps) (simp add: next_times_def)
  qed
qed


lemma benchmark_kernel_ok:
  assumes "fits w k flush cs"
  shows "benchmark_kernel k W C flush cs w =
           Inr (sum_list (next_times w (unat C)) / real (unat C),
                after (loop_events k (unat W) (unat C) flush cs) (unat C) w)"
proof -
  have ops: "list_all (\<lambda>sz. alloc_ok w (unat sz)) (operands k)" and fl: "flush_fits w flush cs"
    using assms by (simp_all add: fits_def)
  show ?thesis
    by (simp add: benchmark_kernel_def generate_all_ok [OF ops] warmup_loop_ok timed_loop_ok fl
        loop_events_def next_times_def)
qed

lemma benchmark_kernel_once:
  assumes "fits w k flush cs"
  shows "benchmark_kernel k W 1 flush cs w =
           Inr (elapsed_ms w (ticks w), after (loop_events k (unat W) 1 flush cs) 1 w)"
  by (simp add: benchmark_kernel_ok [OF assms] next_times_def)

lemma collect_times_ok:
  assumes "fits w k flush cs"
  shows "collect_times i c (benchmark_kernel k W 1 flush cs) tms w =
           Inr (tms @ next_times w (nat (c - i)),
                after (concat (replicate (nat (c - i)) (loop_events k (unat W) 1 flush cs)))
                  (nat (c - i)) w)"
  using assms
proof (induction i c "benchmark_kernel k W 1 flush cs" tms w rule: collect_times.induct)
  case (1 i c tms w)
  show ?case
  proof (cases "i < c")
    case True
    then have *: "nat (c - i) = Suc (nat (c - (i + 1)))"
      by simp
    have nt: "next_times w (Suc m) =
        elapsed_ms w (ticks w) # next_times (after (loop_events k (unat W) 1 flush cs) 1 w) m" for m
      by (simp add: next_times_def upt_conv_Cons del: upt_Suc)
    show ?thesis
      using True "1.prems" "1.hyps" [OF True benchmark_kernel_once [OF "1.prems"] refl]
      by (subst collect_times.simps) (simp add: benchmark_kernel_once * nt)
  next
    case False
    then show ?thesis
      by (subst collect_times.simps) (simp add: next_times_def)
  qed
qed

section \<open>FLOP model\<close>

lemma unat_dot: "unat (dot n) = (2 * unat n) mod 2 ^ 64"
  by (simp add: dot_def unat_word_ariths)

lemma unat_axpy: "unat (axpy n) = (2 * unat n) mod 2 ^ 64"
  by (simp add: axpy_def unat_word_ariths)

lemma unat_gemv: "unat (gemv m n) = (2 * unat m * unat n) mod 2 ^ 64"
  by (simp add: gemv_def unat_word_ariths mod_simps)

lemma unat_gemm: "unat (gemm m n k) = (2 * unat m * unat n * unat k) mod 2 ^ 64"
  by (simp add: gemm_def unat_word_ariths mod_simps)

text \<open>
  C3 (as amended). The FLOP model functions are functions of their arguments alone and
  compute in \<^verbatim>\<open>std::size_t\<close>: \<open>dot\<close> and \<open>axpy\<close> return \<open>2N\<close> modulo \<open>2 ^ 64\<close>,
  \<open>scal\<close> returns \<open>N\<close>, \<open>gemv\<close> returns \<open>2MN\<close> modulo \<open>2 ^ 64\<close> and \<open>gemm\<close> returns
  \<open>2MNK\<close> modulo \<open>2 ^ 64\<close>; whenever the exact count is below \<open>2 ^ 64\<close> the result is
  the exact count \<open>2N\<close>, \<open>2MN\<close>, \<open>2MNK\<close>.
\<close>

theorem flops_model:
  "unat (dot n) = (2 * unat n) mod 2 ^ 64 \<and>
   unat (axpy n) = (2 * unat n) mod 2 ^ 64 \<and>
   unat (scal n) = unat n \<and>
   unat (gemv m1 n1) = (2 * unat m1 * unat n1) mod 2 ^ 64 \<and>
   unat (gemm m2 n2 k2) = (2 * unat m2 * unat n2 * unat k2) mod 2 ^ 64 \<and>
   (2 * unat n < 2 ^ 64 \<longrightarrow> unat (dot n) = 2 * unat n \<and> unat (axpy n) = 2 * unat n) \<and>
   (2 * unat m1 * unat n1 < 2 ^ 64 \<longrightarrow> unat (gemv m1 n1) = 2 * unat m1 * unat n1) \<and>
   (2 * unat m2 * unat n2 * unat k2 < 2 ^ 64 \<longrightarrow>
      unat (gemm m2 n2 k2) = 2 * unat m2 * unat n2 * unat k2)"
  by (simp add: unat_dot unat_axpy unat_gemv unat_gemm scal_def)

theorem flops_model_witness:
  "2 * unat (1000000 :: size_t) < 2 ^ 64 \<and>
   unat (dot 1000000) = 2000000 \<and> unat (axpy 1000000) = 2000000 \<and>
   2 * unat (1024 :: size_t) * unat (1024 :: size_t) < 2 ^ 64 \<and>
   unat (gemv 1024 1024) = 2097152 \<and>
   2 * unat (1024 :: size_t) * unat (1024 :: size_t) * unat (1024 :: size_t) < 2 ^ 64 \<and>
   unat (gemm 1024 1024 1024) = 2147483648"
  using flops_model [of 1000000 1024 1024 1024 1024 1024] by simp

text \<open>
  C3 as stated fails where the count overflows: for \<open>N = 2 ^ 63\<close> the function \<open>dot\<close>
  returns 0, not \<open>2N = 2 ^ 64\<close>.
\<close>

theorem flops_model_counterexample:
  "unat (dot (2 ^ 63)) = 0 \<and> unat (dot (2 ^ 63)) \<noteq> 2 * unat (2 ^ 63 :: size_t)"
  by (simp add: dot_def)

section \<open>Cache eviction size\<close>

lemma unat_total:
  "unat l1 + unat l2 + unat l3 < 2 ^ 64 \<Longrightarrow>
   unat (l1 + l2 + l3 :: size_t) = unat l1 + unat l2 + unat l3"
  by (simp add: unat_word_ariths mod_simps)

text \<open>
  C4. The eviction size of a runner is 16 MiB when the sum of the detected L1, L2 and L3
  cache sizes is below 1 MiB, and that sum otherwise; for a detected total of 512 KiB
  it is 16 MiB. The sum is the one the constructor computes, in \<^verbatim>\<open>std::size_t\<close>; the
  last part reads it as a natural number for sizes whose sum is below \<open>2 ^ 64\<close>.
\<close>

theorem cache_size_floor:
  "m_cache_size (BenchmarkRunner_new cfg w) =
     (let total = l1_cache (collected w) + l2_cache (collected w) + l3_cache (collected w)
      in if total < 1024 * 1024 then 16 * 1024 * 1024 else total) \<and>
   (l1_cache (collected w) + l2_cache (collected w) + l3_cache (collected w) = 512 * 1024
      \<longrightarrow> m_cache_size (BenchmarkRunner_new cfg w) = 16 * 1024 * 1024) \<and>
   (unat (l1_cache (collected w)) + unat (l2_cache (collected w))
        + unat (l3_cache (collected w)) < 2 ^ 64
      \<longrightarrow> unat (m_cache_size (BenchmarkRunner_new cfg w)) =
           (if unat (l1_cache (collected w)) + unat (l2_cache (collected w))
                 + unat (l3_cache (collected w)) < 1024 * 1024
            then 16 * 1024 * 1024
            else unat (l1_cache (collected w)) + unat (l2_cache (collected w))
                   + unat (l3_cache (collected w))))"
  by (simp add: BenchmarkRunner_new_def Let_def word_less_nat_alt unat_total)

theorem cache_size_floor_witness:
  "l1_cache (collected (example_world\<lparr>collected := (collected example_world)
       \<lparr>l1_cache := 32768, l2_cache := 491520, l3_cache := 0\<rparr>\<rparr>))
     + l2_cache (collected (example_world\<lparr>collected := (collected example_world)
       \<lparr>l1_cache := 32768, l2_cache := 491520, l3_cache := 0\<rparr>\<rparr>))
     + l3_cache (collected (example_world\<lparr>collected := (collected example_world)
       \<lparr>l1_cache := 32768, l2_cache := 491520, l3_cache := 0\<rparr>\<rparr>)) = 512 * 1024 \<and>
   m_cache_size (BenchmarkRunner_new get_default
     (example_world\<lparr>collected := (collected example_world)
       \<lparr>l1_cache := 32768, l2_cache := 491520, l3_cache := 0\<rparr>\<rparr>)) = 16777216 \<and>
   unat (l1_cache (collected example_world)) + unat (l2_cache (collected example_world))
     + unat (l3_cache (collected example_world)) < 2 ^ 64 \<and>
   unat (m_cache_size (BenchmarkRunner_new get_default example_world)) = 8683520"
  using cache_size_floor [of get_default
      "example_world\<lparr>collected := (collected example_world)
         \<lparr>l1_cache := 32768, l2_cache := 491520, l3_cache := 0\<rparr>\<rparr>"]
    cache_size_floor [of get_default example_world]
  by (simp add: example_world_def)

section \<open>Cache evictor\<close>

lemma unat_flush_buffer_size:
  "unat (flush_buffer_size S) = (4 * unat S) mod 2 ^ 64 div 8"
  by (simp add: flush_buffer_size_def unat_div unat_word_ariths mult.commute)

lemma flush_body_simps [simp]:
  "buffer (flush_body i s) = (buffer s)[i := real i]"
  "sum_acc (flush_body i s) = sum_acc s + buffer s ! i"
  "accesses (flush_body i s) = accesses s @ [Rd i, Wr i]"
  by (simp_all add: flush_body_def)

lemma flush_loop_accesses:
  "accesses (flush_loop i n s) = accesses s @ concat (map (\<lambda>j. [Rd j, Wr j]) [i..<n])"
proof (induction i n s rule: flush_loop.induct)
  case (1 i n s)
  show ?case
  proof (cases "i < n")
    case True
    then show ?thesis
      using "1.IH" by (subst flush_loop.simps) (simp add: upt_conv_Cons)
  next
    case False
    then show ?thesis
      by (subst flush_loop.simps) simp
  qed
qed

lemma flush_loop_length:
  "length (buffer (flush_loop i n s)) = length (buffer s)"
proof (induction i n s rule: flush_loop.induct)
  case (1 i n s)
  show ?case
  proof (cases "i < n")
    case True
    then show ?thesis
      using "1.IH" by (subst flush_loop.simps) simp
  next
    case False
    then show ?thesis
      by (subst flush_loop.simps) simp
  qed
qed

lemma flush_cache_accesses:
  "accesses (flush_cache S) =
     concat (map (\<lambda>j. [Rd j, Wr j]) [0..<unat (flush_buffer_size S)])"
  by (simp add: flush_cache_def Let_def flush_loop_accesses)

lemma flush_cache_length:
  "length (buffer (flush_cache S)) = unat (flush_buffer_size S)"
  by (simp add: flush_cache_def Let_def flush_loop_length)

text \<open>
  C8 (as amended). For every eviction size \<open>S\<close>, \<^verbatim>\<open>flush_cache\<close> works on a buffer of
  \<open>(4 * S mod 2 ^ 64) div 8\<close> elements of 8 bytes each and reads, then writes, every
  element of it, in the order of the indices. When \<open>4 * S\<close> does not overflow, the
  buffer occupies \<open>8 * (S div 2)\<close> bytes: at least \<open>4 * S - 4\<close> and at most \<open>4 * S\<close>, and
  exactly \<open>4 * S\<close> when \<open>S\<close> is even.
\<close>

theorem flush_cache_buffer:
  "length (buffer (flush_cache S)) = unat (flush_buffer_size S) \<and>
   flush_buffer_bytes S = 8 * length (buffer (flush_cache S)) \<and>
   accesses (flush_cache S) =
     concat (map (\<lambda>j. [Rd j, Wr j]) [0..<length (buffer (flush_cache S))]) \<and>
   (4 * unat S < 2 ^ 64 \<longrightarrow>
      flush_buffer_bytes S = 8 * (unat S div 2) \<and>
      4 * unat S \<le> flush_buffer_bytes S + 4 \<and>
      flush_buffer_bytes S \<le> 4 * unat S \<and>
      (even (unat S) \<longrightarrow> flush_buffer_bytes S = 4 * unat S))"
proof -
  have "flush_buffer_bytes S = 8 * (unat S div 2)" if "4 * unat S < 2 ^ 64"
  proof -
    have "(4 * unat S) mod 2 ^ 64 div 8 = 4 * unat S div 8"
      using that by simp
    also have "\<dots> = unat S div 2"
      by presburger
    finally show ?thesis
      by (simp add: flush_buffer_bytes_def unat_flush_buffer_size)
  qed
  moreover have "4 * unat S \<le> 8 * (unat S div 2) + 4" and "8 * (unat S div 2) \<le> 4 * unat S"
    by presburger+
  moreover have "8 * (unat S div 2) = 4 * unat S" if "even (unat S)"
    using that by presburger
  ultimately show ?thesis
    by (simp add: flush_cache_length flush_cache_accesses flush_buffer_bytes_def)
qed

theorem flush_cache_buffer_witness:
  "4 * unat (16777216 :: size_t) < 2 ^ 64 \<and> even (unat (16777216 :: size_t)) \<and>
   flush_buffer_bytes 16777216 = 67108864 \<and>
   length (buffer (flush_cache 16777216)) = 8388608"
  using flush_cache_buffer [of 16777216] by (simp add: flush_buffer_size_def)

text \<open>
  C8 as stated fails for an odd size: for \<open>S = 1048577\<close> (one byte above the 1 MiB
  floor) the buffer has 4194304 bytes, fewer than \<open>4 * S = 4194308\<close>.
\<close>

theorem flush_cache_buffer_counterexample:
  "flush_buffer_bytes 1048577 = 4194304 \<and> \<not> 4 * unat (1048577 :: size_t) \<le> flush_buffer_bytes 1048577"
  by (simp add: flush_buffer_bytes_def flush_buffer_size_def)

section \<open>Throughput\<close>



section \<open>Result aggregator\<close>

lemma accumulate_sum_list: "accumulate xs init = init + sum_list xs"
  by (induction xs arbitrary: init) simp_all

lemma min_scan_Min: "min_scan x xs = Min (set (x # xs))"
proof (induction xs arbitrary: x)
  case Nil
  then show ?case by simp
next
  case (Cons y ys)
  have "(if y < x then y else x) = min x y"
    by (simp add: min_def)
  then have "min_scan x (y # ys) = Min (set (min x y # ys))"
    by (simp add: Cons.IH)
  also have "\<dots> = Min (set (x # y # ys))"
    by (cases "ys = []") (simp_all add: min.assoc)
  finally show ?case .
qed

lemma max_scan_Max: "max_scan x xs = Max (set (x # xs))"
proof (induction xs arbitrary: x)
  case Nil
  then show ?case by simp
next
  case (Cons y ys)
  have "(if x < y then y else x) = max x y"
    by (simp add: max_def)
  then have "max_scan x (y # ys) = Max (set (max x y # ys))"
    by (simp add: Cons.IH)
  also have "\<dots> = Max (set (x # y # ys))"
    by (cases "ys = []") (simp_all add: max.assoc)
  finally show ?case .
qed

lemma min_element_Min: "tms \<noteq> [] \<Longrightarrow> min_element tms = Some (Min (set tms))"
  by (cases tms) (simp_all add: min_element_def min_scan_Min del: set_simps)

lemma max_element_Max: "tms \<noteq> [] \<Longrightarrow> max_element tms = Some (Max (set tms))"
  by (cases tms) (simp_all add: max_element_def max_scan_Max del: set_simps)




lemma summarize_ok:
  assumes "tms \<noteq> []"
  shows "summarize runner name cs fc tms =
           Inr \<lparr>function_name = name, config_str = cs,
                threads = cfg_threads (m_config runner),
                min_time_ms = Min (set tms),
                avg_time_ms = sum_list tms / real (length tms),
                max_time_ms = Max (set tms),
                gflops = compute_gflops fc (sum_list tms / real (length tms)),
                flops = fc\<rparr>"
  by (simp add: summarize_def min_element_Min max_element_Max assms accumulate_sum_list Let_def)

lemma summarize_empty: "summarize runner name cs fc [] = Inl UndefinedDeref"
  by (simp add: summarize_def min_element_def)


lemma run_single_benchmark_ok:
  assumes "fits w k flush cs"
    and "alloc_ok w (unat (size_t_of_int (cfg_cycles (m_config runner))))"
  shows "run_single_benchmark runner name cfgs (benchmark_kernel k W 1 flush cs) fc w =
           (case summarize runner name cfgs fc
                   (next_times w (nat (sint (cfg_cycles (m_config runner))))) of
              Inl e \<Rightarrow> Inl e
            | Inr r \<Rightarrow>
                Inr (r, after (concat (replicate (nat (sint (cfg_cycles (m_config runner))))
                                         (loop_events k (unat W) 1 flush cs)))
                          (nat (sint (cfg_cycles (m_config runner)))) w))"
  using assms by (simp add: run_single_benchmark_def Let_def collect_times_ok split: sum.splits)

lemma next_times_empty [simp]: "next_times w C = [] \<longleftrightarrow> C = 0"
  by (auto simp: next_times_def)

lemma length_next_times [simp]: "length (next_times w C) = C"
  by (simp add: next_times_def)

lemma invocations_loop_events [simp]: "invocations (loop_events k W C flush cs) = W + C"
  by (simp add: loop_events_def warm_events_def timed_events_def flush_events_def)
     (simp add: invocations_def)


text \<open>
  The instance of C2 in a run: with \<open>cycles = 5\<close> the timed sections of
  \<^const>\<open>example_world\<close> take 1, 2, 3, 4 and 5 ms.
\<close>

lemma example_times: "next_times example_world 5 = [1, 2, 3, 4, 5]"
  by (simp add: next_times_def example_world_def elapsed_ms_def upt_rec [of 0] upt_rec [of "Suc _"])


section \<open>Validation of the configuration\<close>

lemma m_config_new [simp]: "m_config (BenchmarkRunner_new cfg w) = cfg"
  by (simp add: BenchmarkRunner_new_def Let_def)

lemma collect_times_none: "c \<le> i \<Longrightarrow> collect_times i c f tms w = Inr (tms, w)"
  by (subst collect_times.simps) simp

lemma run_single_benchmark_zero:
  assumes "cfg_cycles (m_config runner) = 0"
  shows "run_single_benchmark runner name cs f fc w = Inl UndefinedDeref"
  using assms
  by (simp add: run_single_benchmark_def Let_def size_t_of_int_def alloc_ok_def
      collect_times_none summarize_empty)

lemma load_default_zero:
  "load_config (cli_defaults\<lparr>arg_cycles := 0\<rparr>) None = get_default\<lparr>cfg_cycles := 0\<rparr>"
  by (simp add: load_config_def cli_defaults_def get_default_def)

text \<open>
  C5 (the code does not do what the claim says). With \<^verbatim>\<open>--cycle 0\<close> and everything else
  at its default the configuration passes the validation of \<^verbatim>\<open>main\<close>, the run starts,
  the first benchmark collects no sample and dereferences the end iterator of the empty
  vector of times: the program is not stopped by a rejection of the configuration.
\<close>

theorem zero_cycles_not_rejected:
  "main lib (cli_defaults\<lparr>arg_cycles := 0\<rparr>) None w = Inl UndefinedDeref"
proof -
  let ?cfg = "get_default\<lparr>cfg_cycles := 0\<rparr>"
  let ?runner = "BenchmarkRunner_new ?cfg w"
  have "run_level1 ?runner report w' = Inl UndefinedDeref" for report w'
    by (simp add: run_level1_def get_default_def level1_dispatch_def Let_def
        run_single_benchmark_zero)
  then have "run_all ?runner w = Inl UndefinedDeref"
    by (simp add: run_all_def Let_def) (simp add: get_default_def)
  then have "run_benchmarks lib ?cfg w = Inl UndefinedDeref"
    by (simp add: run_benchmarks_def)
  moreover have "main lib (cli_defaults\<lparr>arg_cycles := 0\<rparr>) None w = run_benchmarks lib ?cfg w"
    by (simp add: main_def load_default_zero Let_def no_sizes_def)
       (simp add: cli_defaults_def get_default_def)
  ultimately show ?thesis
    by simp
qed

lemma load_empty_lists:
  "load_config cli_defaults (Some (Toml (Some (Functions (Some []) (Some []) (Some []))) None None))
   = get_default\<lparr>level1_functions := [], level2_functions := [], level3_functions := []\<rparr>"
  by (simp add: load_config_def parse_string_def parse_functions_def or_else_def
      cli_defaults_def get_default_def)

text \<open>
  Whatever the configuration file and the command line hold, every level has a size
  when the validation is reached: the sizes of \<^verbatim>\<open>get_default()\<close> are replaced, never
  removed.
\<close>

lemma sizes_always_present:
  "level1_size (load_config args file) \<noteq> None \<and>
   level2_size (load_config args file) \<noteq> None \<and>
   level3_size (load_config args file) \<noteq> None"
  by (simp add: load_config_def parse_string_def parse_functions_def parse_weights_def
      parse_defaults_def get_default_def Let_def split: option.splits)

text \<open>
  C6 (the code does not do what the claim says). With a configuration file whose
  section \<^verbatim>\<open>[functions]\<close> sets \<^verbatim>\<open>level1\<close>, \<^verbatim>\<open>level2\<close> and \<^verbatim>\<open>level3\<close> to empty arrays, no
  level has both a size and a non-empty list; the program passes the validation (which
  looks at the sizes alone), runs no level, logs no error and returns 0.
\<close>

theorem empty_function_lists_accepted:
  "main lib cli_defaults
     (Some (Toml (Some (Functions (Some []) (Some []) (Some []))) None None)) w
   = Inr (0, set_threads 1 w)"
proof -
  let ?cfg = "get_default\<lparr>level1_functions := [], level2_functions := [], level3_functions := []\<rparr>"
  let ?doc = "Toml (Some (Functions (Some []) (Some []) (Some []))) None None"
  have "\<exists>report. run_all (BenchmarkRunner_new ?cfg w) w = Inr (report, set_threads 1 w)"
    by (simp add: run_all_def Let_def get_default_def)
  then have "run_benchmarks lib ?cfg w = Inr (0, set_threads 1 w)"
    by (auto simp: run_benchmarks_def get_default_def)
  moreover have "main lib cli_defaults (Some ?doc) w = run_benchmarks lib ?cfg w"
    by (simp add: main_def load_empty_lists Let_def no_sizes_def)
       (simp add: cli_defaults_def get_default_def)
  ultimately show ?thesis
    by simp
qed

section \<open>One benchmarked operation\<close>

text \<open>
  C1 (as amended). The inner routine \<^verbatim>\<open>benchmark_<op>(W, C')\<close> with \<open>C' \<ge> 1\<close> creates
  its operands,
  executes the operation \<open>W\<close> times untimed and then \<open>C'\<close> times timed (each execution
  preceded by the eviction when it is enabled), and returns the arithmetic mean of the
  \<open>C'\<close> elapsed times: \<open>W + C'\<close> calls of the backend. The orchestrator calls it with
  \<open>C' = 1\<close>, once for each of the \<open>C \<ge> 1\<close> configured cycles. One benchmarked operation
  therefore consists of \<open>C\<close> rounds, each with fresh operands, \<open>W\<close> untimed executions
  and one timed execution; it yields the \<open>C\<close> elapsed times, whose minimum, maximum
  and arithmetic mean are reported, and it calls the backend \<open>C * (W + 1)\<close> times.
  This holds when the operands, the eviction buffer and the vector of times can be
  created.
\<close>

theorem benchmarked_operation:
  fixes runner :: BenchmarkRunner and w :: world and warmup cycles' cs :: size_t
    and k :: kernel and flush :: bool
  defines "C \<equiv> nat (sint (cfg_cycles (m_config runner)))"
  defines "W \<equiv> unat warmup"
  defines "w' \<equiv> after (concat (replicate C (loop_events k W 1 flush cs))) C w"
  assumes cycles: "0 < sint (cfg_cycles (m_config runner))"
    and fits: "fits w k flush cs"
    and reserve: "alloc_ok w (unat (size_t_of_int (cfg_cycles (m_config runner))))"
  shows "(0 < unat cycles' \<longrightarrow>
            benchmark_kernel k warmup cycles' flush cs w =
              Inr (sum_list (next_times w (unat cycles')) / real (unat cycles'),
                   after (loop_events k W (unat cycles') flush cs) (unat cycles') w)) \<and>
         invocations (loop_events k W (unat cycles') flush cs) = W + unat cycles' \<and>
         collect_times 0 (sint (cfg_cycles (m_config runner)))
             (benchmark_kernel k warmup 1 flush cs) [] w = Inr (next_times w C, w') \<and>
         length (next_times w C) = C \<and>
         (\<exists>r. run_single_benchmark runner name cfgs (benchmark_kernel k warmup 1 flush cs) fc w
                = Inr (r, w') \<and>
              min_time_ms r = Min (set (next_times w C)) \<and>
              max_time_ms r = Max (set (next_times w C)) \<and>
              avg_time_ms r = sum_list (next_times w C) / real C) \<and>
         invocations (events w') = invocations (events w) + C * (W + 1)"
proof -
  have C: "C \<noteq> 0"
    using cycles by (simp add: C_def)
  then have ne: "next_times w C \<noteq> []"
    by simp
  show ?thesis
    unfolding W_def w'_def
    by (simp add: benchmark_kernel_ok [OF fits] collect_times_ok [OF fits]
        run_single_benchmark_ok [OF fits reserve] summarize_ok [OF ne] C_def [symmetric])
qed

lemma example_fits:
  "fits example_world (Dot 1000000) True
     (m_cache_size (BenchmarkRunner_new cfg example_world))"
  by (simp add: fits_def flush_fits_def alloc_ok_def example_world_def BenchmarkRunner_new_def
      flush_buffer_size_def list_all_iff)

lemma example_time: "next_times example_world (Suc 0) = [1]"
  by (simp add: next_times_def example_world_def elapsed_ms_def)

theorem benchmarked_operation_witness:
  "0 < sint (cfg_cycles (m_config (BenchmarkRunner_new get_default example_world))) \<and>
   fits example_world (Dot 1000000) True
     (m_cache_size (BenchmarkRunner_new get_default example_world)) \<and>
   alloc_ok example_world
     (unat (size_t_of_int (cfg_cycles (m_config (BenchmarkRunner_new get_default example_world))))) \<and>
   0 < unat (1 :: size_t) \<and>
   benchmark_kernel (Dot 1000000) 3 1 True
       (m_cache_size (BenchmarkRunner_new get_default example_world)) example_world
     = Inr (1, after (loop_events (Dot 1000000) 3 1 True
                 (m_cache_size (BenchmarkRunner_new get_default example_world))) 1
               example_world) \<and>
   collect_times 0 5
       (benchmark_kernel (Dot 1000000) 3 1 True
          (m_cache_size (BenchmarkRunner_new get_default example_world))) [] example_world
     = Inr ([1, 2, 3, 4, 5],
            after (concat (replicate 5 (loop_events (Dot 1000000) 3 1 True
                     (m_cache_size (BenchmarkRunner_new get_default example_world))))) 5
              example_world) \<and>
   invocations (events (after (concat (replicate 5 (loop_events (Dot 1000000) 3 1 True
                     (m_cache_size (BenchmarkRunner_new get_default example_world))))) 5
              example_world)) = 20"
proof -
  let ?runner = "BenchmarkRunner_new get_default example_world"
  have five: "cfg_cycles get_default = 5"
    by (simp add: get_default_def)
  have cycles: "0 < sint (cfg_cycles (m_config ?runner))"
    by (simp add: five)
  have reserve: "alloc_ok example_world (unat (size_t_of_int (cfg_cycles (m_config ?runner))))"
    by (simp add: five size_t_of_int_def alloc_ok_def example_world_def)
  have ev: "events example_world = []"
    by (simp add: example_world_def)
  show ?thesis
    using cycles reserve example_fits [of get_default]
      benchmarked_operation [OF cycles example_fits [of get_default] reserve,
        where warmup = 3 and cycles' = 1 and name = "''ddot''" and cfgs = "''N=1000000''"
          and fc = "dot 1000000"]
    by (simp add: five example_times ev example_time)
qed

text \<open>
  C1 as stated fails: with \<open>W = 1\<close> warmup and \<open>C = 2\<close> cycles one benchmarked
  operation calls the backend 4 times, not \<open>W + C = 3\<close> times.
\<close>

theorem measurement_loop_counterexample:
  "map_sum id (\<lambda>(r, w'). invocations (events w'))
     (run_single_benchmark
        (BenchmarkRunner_new (get_default\<lparr>cfg_warmup := 1, cfg_cycles := 2\<rparr>) example_world)
        ''ddot'' ''N=1000000''
        (benchmark_dot 1000000 (size_t_of_int 1) 1 True
           (m_cache_size
              (BenchmarkRunner_new (get_default\<lparr>cfg_warmup := 1, cfg_cycles := 2\<rparr>) example_world)))
        (dot 1000000) example_world)
   = Inr 4 \<and> (4::nat) \<noteq> 1 + 2"
proof -
  let ?runner = "BenchmarkRunner_new (get_default\<lparr>cfg_warmup := 1, cfg_cycles := 2\<rparr>) example_world"
  have reserve: "alloc_ok example_world (unat (size_t_of_int (cfg_cycles (m_config ?runner))))"
    by (simp add: get_default_def size_t_of_int_def alloc_ok_def example_world_def)
  have C: "nat (sint (cfg_cycles (m_config ?runner))) = 2"
    by (simp add: get_default_def)
  have ne: "next_times example_world 2 \<noteq> []"
    by simp
  have ev: "events example_world = []"
    by (simp add: example_world_def)
  show ?thesis
    by (simp add: benchmark_dot_def run_single_benchmark_ok [OF example_fits reserve] C
        summarize_ok [OF ne] ev size_t_of_int_def)
qed

section \<open>The loop over the names of a level\<close>

lemma warn_simps [simp]:
  "timer_us (warn m w) = timer_us w"
  "ticks (warn m w) = ticks w"
  "can_alloc (warn m w) = can_alloc w"
  "collected (warn m w) = collected w"
  "events (warn m w) = events w"
  "log (warn m w) = log w @ [(Warn, m)]"
  by (simp_all add: warn_def)

lemma level_room_after [simp]: "level_room lvl runner (after es n w) = level_room lvl runner w"
  by (simp add: level_room_def)

lemma level_room_warn [simp]: "level_room lvl runner (warn m w) = level_room lvl runner w"
  by (simp add: level_room_def fits_def flush_fits_def alloc_ok_def)

lemma level_loop_ok:
  assumes run_ok: "\<And>nm run w. dispatch nm = Some run \<Longrightarrow> good w \<Longrightarrow>
             \<exists>r es n. run w = Inr (r, after es n w) \<and> P nm r"
    and good_after: "\<And>es n w. good (after es n w) = good w"
    and good_warn: "\<And>m w. good (warn m w) = good w"
  shows "good w \<Longrightarrow>
    \<exists>rs w'. level_loop dispatch unknown push names report w = Inr (fold push rs report, w') \<and>
       list_all2 P (filter (\<lambda>nm. dispatch nm \<noteq> None) names) rs \<and>
       log w' = log w @ map (\<lambda>nm. (Warn, unknown @ nm)) (filter (\<lambda>nm. dispatch nm = None) names) \<and>
       good w'"
proof (induction names arbitrary: report w)
  case Nil
  then show ?case
    by (intro exI [of _ "[]"]) simp
next
  case (Cons nm names)
  show ?case
  proof (cases "dispatch nm")
    case None
    have "good (warn (unknown @ nm) w)"
      using Cons.prems by (simp add: good_warn)
    from Cons.IH [OF this, of report] obtain rs w' where
      "level_loop dispatch unknown push names report (warn (unknown @ nm) w)
         = Inr (fold push rs report, w')"
      "list_all2 P (filter (\<lambda>nm. dispatch nm \<noteq> None) names) rs"
      "log w' = log (warn (unknown @ nm) w)
         @ map (\<lambda>nm. (Warn, unknown @ nm)) (filter (\<lambda>nm. dispatch nm = None) names)"
      "good w'"
      by blast
    then show ?thesis
      using None by (intro exI [of _ rs] exI [of _ w']) simp
  next
    case (Some run)
    from run_ok [OF Some Cons.prems] obtain r es n where
      run: "run w = Inr (r, after es n w)" and P: "P nm r"
      by blast
    have "good (after es n w)"
      using Cons.prems by (simp add: good_after)
    from Cons.IH [OF this, of "push r report"] obtain rs w' where
      "level_loop dispatch unknown push names (push r report) (after es n w)
         = Inr (fold push rs (push r report), w')"
      "list_all2 P (filter (\<lambda>nm. dispatch nm \<noteq> None) names) rs"
      "log w' = log (after es n w)
         @ map (\<lambda>nm. (Warn, unknown @ nm)) (filter (\<lambda>nm. dispatch nm = None) names)"
      "good w'"
      by blast
    then show ?thesis
      using Some run P by (intro exI [of _ "r # rs"] exI [of _ w']) simp
  qed
qed


lemma fold_push_level1:
  "fold push_level1 rs report = report\<lparr>level1_results := level1_results report @ rs\<rparr>"
  by (induction rs arbitrary: report) (simp_all add: push_level1_def)

lemma fold_push_level2:
  "fold push_level2 rs report = report\<lparr>level2_results := level2_results report @ rs\<rparr>"
  by (induction rs arbitrary: report) (simp_all add: push_level2_def)

lemma fold_push_level3:
  "fold push_level3 rs report = report\<lparr>level3_results := level3_results report @ rs\<rparr>"
  by (induction rs arbitrary: report) (simp_all add: push_level3_def)

lemma run_single_benchmark_succeeds:
  assumes "fits w k flush cs"
    and "alloc_ok w (unat (size_t_of_int (cfg_cycles (m_config runner))))"
    and "0 < sint (cfg_cycles (m_config runner))"
  shows "\<exists>r es n. run_single_benchmark runner name cfgs (benchmark_kernel k W 1 flush cs) fc w
                    = Inr (r, after es n w) \<and> function_name r = name"
proof -
  have "next_times w (nat (sint (cfg_cycles (m_config runner)))) \<noteq> []"
    using assms(3) by simp
  then show ?thesis
    by (simp add: run_single_benchmark_ok [OF assms(1,2)] summarize_ok) blast
qed


lemma level1_dispatch_None:
  "level1_dispatch runner n cs nm = None \<longleftrightarrow> nm \<notin> set (known_names Level1)"
  by (simp add: level1_dispatch_def Let_def)

lemma level2_dispatch_None:
  "level2_dispatch runner m n cs nm = None \<longleftrightarrow> nm \<notin> set (known_names Level2)"
  by (simp add: level2_dispatch_def Let_def)

lemma level3_dispatch_None:
  "level3_dispatch runner m n k cs nm = None \<longleftrightarrow> nm \<notin> set (known_names Level3)"
  by (simp add: level3_dispatch_def Let_def)

lemma level1_dispatch_ok:
  assumes "level1_dispatch runner n cs nm = Some run"
    and "level1_size (m_config runner) = Some n"
    and "0 < sint (cfg_cycles (m_config runner))"
    and "level_room Level1 runner w"
  shows "\<exists>r es j. run w = Inr (r, after es j w) \<and> ''cblas_'' @ function_name r = nm"
proof -
  have room: "fits w (Dot n) (cfg_flush_cache (m_config runner)) (m_cache_size runner)"
    "fits w (Axpy n) (cfg_flush_cache (m_config runner)) (m_cache_size runner)"
    "fits w (Scal n) (cfg_flush_cache (m_config runner)) (m_cache_size runner)"
    and reserve: "alloc_ok w (unat (size_t_of_int (cfg_cycles (m_config runner))))"
    using assms(2,4) by (simp_all add: level_room_def)
  consider "nm = ''cblas_ddot''" | "nm = ''cblas_daxpy''" | "nm = ''cblas_dscal''"
    using assms(1) by (auto simp: level1_dispatch_def Let_def split: if_splits)
  then show ?thesis
  proof cases
    case 1
    then have "run = run_single_benchmark runner ''ddot'' cs
        (benchmark_kernel (Dot n) (size_t_of_int (cfg_warmup (m_config runner))) 1
           (cfg_flush_cache (m_config runner)) (m_cache_size runner)) (dot n)"
      using assms(1) by (simp add: level1_dispatch_def Let_def benchmark_dot_def)
    then show ?thesis
      using run_single_benchmark_succeeds [OF room(1) reserve assms(3)] 1 by simp
  next
    case 2
    then have "run = run_single_benchmark runner ''daxpy'' cs
        (benchmark_kernel (Axpy n) (size_t_of_int (cfg_warmup (m_config runner))) 1
           (cfg_flush_cache (m_config runner)) (m_cache_size runner)) (axpy n)"
      using assms(1) by (simp add: level1_dispatch_def Let_def benchmark_axpy_def)
    then show ?thesis
      using run_single_benchmark_succeeds [OF room(2) reserve assms(3)] 2 by simp
  next
    case 3
    then have "run = run_single_benchmark runner ''dscal'' cs
        (benchmark_kernel (Scal n) (size_t_of_int (cfg_warmup (m_config runner))) 1
           (cfg_flush_cache (m_config runner)) (m_cache_size runner)) (scal n)"
      using assms(1) by (simp add: level1_dispatch_def Let_def benchmark_scal_def)
    then show ?thesis
      using run_single_benchmark_succeeds [OF room(3) reserve assms(3)] 3 by simp
  qed
qed

lemma level2_dispatch_ok:
  assumes "level2_dispatch runner m n cs nm = Some run"
    and "level2_size (m_config runner) = Some (m, n)"
    and "0 < sint (cfg_cycles (m_config runner))"
    and "level_room Level2 runner w"
  shows "\<exists>r es j. run w = Inr (r, after es j w) \<and> ''cblas_'' @ function_name r = nm"
proof -
  have room: "fits w (Gemv (size_t_of_int m) (size_t_of_int n))
      (cfg_flush_cache (m_config runner)) (m_cache_size runner)"
    and reserve: "alloc_ok w (unat (size_t_of_int (cfg_cycles (m_config runner))))"
    using assms(2,4) by (simp_all add: level_room_def)
  have nm: "nm = ''cblas_dgemv''"
    using assms(1) by (auto simp: level2_dispatch_def Let_def split: if_splits)
  then have "run = run_single_benchmark runner ''dgemv'' cs
      (benchmark_kernel (Gemv (size_t_of_int m) (size_t_of_int n))
         (size_t_of_int (cfg_warmup (m_config runner))) 1
         (cfg_flush_cache (m_config runner)) (m_cache_size runner))
      (gemv (size_t_of_int m) (size_t_of_int n))"
    using assms(1) by (simp add: level2_dispatch_def Let_def benchmark_gemv_def)
  then show ?thesis
    using run_single_benchmark_succeeds [OF room reserve assms(3)] nm by simp
qed

lemma level3_dispatch_ok:
  assumes "level3_dispatch runner m n k cs nm = Some run"
    and "level3_size (m_config runner) = Some (m, n, k)"
    and "0 < sint (cfg_cycles (m_config runner))"
    and "level_room Level3 runner w"
  shows "\<exists>r es j. run w = Inr (r, after es j w) \<and> ''cblas_'' @ function_name r = nm"
proof -
  have room: "fits w (Gemm (size_t_of_int m) (size_t_of_int n) (size_t_of_int k))
      (cfg_flush_cache (m_config runner)) (m_cache_size runner)"
    and reserve: "alloc_ok w (unat (size_t_of_int (cfg_cycles (m_config runner))))"
    using assms(2,4) by (simp_all add: level_room_def)
  have nm: "nm = ''cblas_dgemm''"
    using assms(1) by (auto simp: level3_dispatch_def Let_def split: if_splits)
  then have "run = run_single_benchmark runner ''dgemm'' cs
      (benchmark_kernel (Gemm (size_t_of_int m) (size_t_of_int n) (size_t_of_int k))
         (size_t_of_int (cfg_warmup (m_config runner))) 1
         (cfg_flush_cache (m_config runner)) (m_cache_size runner))
      (gemm (size_t_of_int m) (size_t_of_int n) (size_t_of_int k))"
    using assms(1) by (simp add: level3_dispatch_def Let_def benchmark_gemm_def)
  then show ?thesis
    using run_single_benchmark_succeeds [OF room reserve assms(3)] nm by simp
qed

section \<open>The levels\<close>

lemma level_room_cong:
  "can_alloc w' = can_alloc (w :: world) \<Longrightarrow> level_room lvl runner w' = level_room lvl runner w"
  by (simp add: level_room_def fits_def flush_fits_def alloc_ok_def)

lemma other_levels_level1:
  "l \<noteq> Level1 \<Longrightarrow> level_results l (report\<lparr>level1_results := rs\<rparr>) = level_results l report"
  by (cases l) simp_all

lemma other_levels_level2:
  "l \<noteq> Level2 \<Longrightarrow> level_results l (report\<lparr>level2_results := rs\<rparr>) = level_results l report"
  by (cases l) simp_all

lemma other_levels_level3:
  "l \<noteq> Level3 \<Longrightarrow> level_results l (report\<lparr>level3_results := rs\<rparr>) = level_results l report"
  by (cases l) simp_all

text \<open>What a level does with its list of names, when its benchmarks can run.\<close>

lemma run_level_ok:
  assumes size: "has_size lvl (m_config runner)"
    and cycles: "0 < sint (cfg_cycles (m_config runner))"
    and room: "level_room lvl runner w"
  shows "\<exists>rs report' w'. run_level lvl runner report w = Inr (report', w') \<and>
           level_results lvl report' = level_results lvl report @ rs \<and>
           (\<forall>l. l \<noteq> lvl \<longrightarrow> level_results l report' = level_results l report) \<and>
           list_all2 (\<lambda>nm r. ''cblas_'' @ function_name r = nm)
             (filter (\<lambda>nm. nm \<in> set (known_names lvl)) (level_functions lvl (m_config runner))) rs \<and>
           log w' = log w @ map (\<lambda>nm. (Warn, unknown_text lvl @ nm))
             (filter (\<lambda>nm. nm \<notin> set (known_names lvl)) (level_functions lvl (m_config runner))) \<and>
           can_alloc w' = can_alloc w"
proof (cases lvl)
  case Level1
  from size Level1 obtain n where n: "level1_size (m_config runner) = Some n"
    by auto
  define d where "d = level1_dispatch runner n (''N='' @ show_nat (unat n))"
  have known: "(d nm = None) = (nm \<notin> set (known_names Level1))" for nm
    by (simp add: d_def level1_dispatch_None)
  have "\<exists>rs w'. level_loop d ''Unknown Level 1 function: '' push_level1
            (level1_functions (m_config runner)) report w = Inr (fold push_level1 rs report, w') \<and>
          list_all2 (\<lambda>nm r. ''cblas_'' @ function_name r = nm)
            (filter (\<lambda>nm. d nm \<noteq> None) (level1_functions (m_config runner))) rs \<and>
          log w' = log w @ map (\<lambda>nm. (Warn, ''Unknown Level 1 function: '' @ nm))
            (filter (\<lambda>nm. d nm = None) (level1_functions (m_config runner))) \<and>
          can_alloc w' = can_alloc w"
  proof (rule level_loop_ok [where good = "\<lambda>v :: world. can_alloc v = can_alloc w"])
    fix nm run and v :: world
    assume "d nm = Some run" and "can_alloc v = can_alloc w"
    then show "\<exists>r es j. run v = Inr (r, after es j v) \<and> ''cblas_'' @ function_name r = nm"
      using level1_dispatch_ok [OF _ n cycles] room Level1 level_room_cong
      unfolding d_def by blast
  qed simp_all
  then obtain rs w' where
    loop: "level_loop d ''Unknown Level 1 function: '' push_level1
            (level1_functions (m_config runner)) report w = Inr (fold push_level1 rs report, w')"
    and names: "list_all2 (\<lambda>nm r. ''cblas_'' @ function_name r = nm)
            (filter (\<lambda>nm. d nm \<noteq> None) (level1_functions (m_config runner))) rs"
    and warned: "log w' = log w @ map (\<lambda>nm. (Warn, ''Unknown Level 1 function: '' @ nm))
            (filter (\<lambda>nm. d nm = None) (level1_functions (m_config runner)))"
    and alloc: "can_alloc w' = can_alloc w"
    by blast
  have "run_level lvl runner report w = Inr (fold push_level1 rs report, w')"
    using loop by (simp add: Level1 run_level1_def n d_def)
  moreover have "level_results lvl (fold push_level1 rs report) = level_results lvl report @ rs"
    by (simp add: Level1 fold_push_level1)
  moreover have "\<forall>l. l \<noteq> lvl \<longrightarrow> level_results l (fold push_level1 rs report) = level_results l report"
    by (simp add: Level1 fold_push_level1 other_levels_level1)
  ultimately show ?thesis
    using names warned alloc by (simp add: known Level1)
next
  case Level2
  from size Level2 obtain m n where n: "level2_size (m_config runner) = Some (m, n)"
    by auto
  define d where "d = level2_dispatch runner m n
    (''M='' @ show_int (sint m) @ '',N='' @ show_int (sint n))"
  have known: "(d nm = None) = (nm \<notin> set (known_names Level2))" for nm
    by (simp add: d_def level2_dispatch_None)
  have "\<exists>rs w'. level_loop d ''Unknown Level 2 function: '' push_level2
            (level2_functions (m_config runner)) report w = Inr (fold push_level2 rs report, w') \<and>
          list_all2 (\<lambda>nm r. ''cblas_'' @ function_name r = nm)
            (filter (\<lambda>nm. d nm \<noteq> None) (level2_functions (m_config runner))) rs \<and>
          log w' = log w @ map (\<lambda>nm. (Warn, ''Unknown Level 2 function: '' @ nm))
            (filter (\<lambda>nm. d nm = None) (level2_functions (m_config runner))) \<and>
          can_alloc w' = can_alloc w"
  proof (rule level_loop_ok [where good = "\<lambda>v :: world. can_alloc v = can_alloc w"])
    fix nm run and v :: world
    assume "d nm = Some run" and "can_alloc v = can_alloc w"
    then show "\<exists>r es j. run v = Inr (r, after es j v) \<and> ''cblas_'' @ function_name r = nm"
      using level2_dispatch_ok [OF _ n cycles] room Level2 level_room_cong
      unfolding d_def by blast
  qed simp_all
  then obtain rs w' where
    loop: "level_loop d ''Unknown Level 2 function: '' push_level2
            (level2_functions (m_config runner)) report w = Inr (fold push_level2 rs report, w')"
    and names: "list_all2 (\<lambda>nm r. ''cblas_'' @ function_name r = nm)
            (filter (\<lambda>nm. d nm \<noteq> None) (level2_functions (m_config runner))) rs"
    and warned: "log w' = log w @ map (\<lambda>nm. (Warn, ''Unknown Level 2 function: '' @ nm))
            (filter (\<lambda>nm. d nm = None) (level2_functions (m_config runner)))"
    and alloc: "can_alloc w' = can_alloc w"
    by blast
  have "run_level lvl runner report w = Inr (fold push_level2 rs report, w')"
    using loop by (simp add: Level2 run_level2_def n d_def)
  moreover have "level_results lvl (fold push_level2 rs report) = level_results lvl report @ rs"
    by (simp add: Level2 fold_push_level2)
  moreover have "\<forall>l. l \<noteq> lvl \<longrightarrow> level_results l (fold push_level2 rs report) = level_results l report"
    by (simp add: Level2 fold_push_level2 other_levels_level2)
  ultimately show ?thesis
    using names warned alloc by (simp add: known Level2)
next
  case Level3
  from size Level3 obtain m n k where n: "level3_size (m_config runner) = Some (m, n, k)"
    by auto
  define d where "d = level3_dispatch runner m n k
    (''M='' @ show_int (sint m) @ '',N='' @ show_int (sint n) @ '',K='' @ show_int (sint k))"
  have known: "(d nm = None) = (nm \<notin> set (known_names Level3))" for nm
    by (simp add: d_def level3_dispatch_None)
  have "\<exists>rs w'. level_loop d ''Unknown Level 3 function: '' push_level3
            (level3_functions (m_config runner)) report w = Inr (fold push_level3 rs report, w') \<and>
          list_all2 (\<lambda>nm r. ''cblas_'' @ function_name r = nm)
            (filter (\<lambda>nm. d nm \<noteq> None) (level3_functions (m_config runner))) rs \<and>
          log w' = log w @ map (\<lambda>nm. (Warn, ''Unknown Level 3 function: '' @ nm))
            (filter (\<lambda>nm. d nm = None) (level3_functions (m_config runner))) \<and>
          can_alloc w' = can_alloc w"
  proof (rule level_loop_ok [where good = "\<lambda>v :: world. can_alloc v = can_alloc w"])
    fix nm run and v :: world
    assume "d nm = Some run" and "can_alloc v = can_alloc w"
    then show "\<exists>r es j. run v = Inr (r, after es j v) \<and> ''cblas_'' @ function_name r = nm"
      using level3_dispatch_ok [OF _ n cycles] room Level3 level_room_cong
      unfolding d_def by blast
  qed simp_all
  then obtain rs w' where
    loop: "level_loop d ''Unknown Level 3 function: '' push_level3
            (level3_functions (m_config runner)) report w = Inr (fold push_level3 rs report, w')"
    and names: "list_all2 (\<lambda>nm r. ''cblas_'' @ function_name r = nm)
            (filter (\<lambda>nm. d nm \<noteq> None) (level3_functions (m_config runner))) rs"
    and warned: "log w' = log w @ map (\<lambda>nm. (Warn, ''Unknown Level 3 function: '' @ nm))
            (filter (\<lambda>nm. d nm = None) (level3_functions (m_config runner)))"
    and alloc: "can_alloc w' = can_alloc w"
    by blast
  have "run_level lvl runner report w = Inr (fold push_level3 rs report, w')"
    using loop by (simp add: Level3 run_level3_def n d_def)
  moreover have "level_results lvl (fold push_level3 rs report) = level_results lvl report @ rs"
    by (simp add: Level3 fold_push_level3)
  moreover have "\<forall>l. l \<noteq> lvl \<longrightarrow> level_results l (fold push_level3 rs report) = level_results l report"
    by (simp add: Level3 fold_push_level3 other_levels_level3)
  ultimately show ?thesis
    using names warned alloc by (simp add: known Level3)
qed

text \<open>
  C7. In a level that has a size, whose list of names contains one recognised name and
  any number of other names, the orchestrator logs one warning for each unrecognised
  name, in the order of the list, and goes on; the level's results gain exactly one
  result, that of the recognised name. A name is recognised when it is equal, character
  for character, to one of the names of the level's closed set. The configuration is
  valid (at least one cycle) and the buffers of the level's benchmarks can be created.
\<close>

theorem unknown_names_skipped:
  assumes size: "has_size lvl (m_config runner)"
    and cycles: "0 < sint (cfg_cycles (m_config runner))"
    and room: "level_room lvl runner w"
    and one: "filter (\<lambda>nm. nm \<in> set (known_names lvl)) (level_functions lvl (m_config runner))
                = [known]"
  shows "\<exists>r report' w'. run_level lvl runner report w = Inr (report', w') \<and>
           level_results lvl report' = level_results lvl report @ [r] \<and>
           ''cblas_'' @ function_name r = known \<and>
           log w' = log w @ map (\<lambda>nm. (Warn, unknown_text lvl @ nm))
             (filter (\<lambda>nm. nm \<notin> set (known_names lvl)) (level_functions lvl (m_config runner)))"
proof -
  from run_level_ok [OF size cycles room, of report] obtain rs report' w' where
    run: "run_level lvl runner report w = Inr (report', w')"
    and res: "level_results lvl report' = level_results lvl report @ rs"
    and names: "list_all2 (\<lambda>nm r. ''cblas_'' @ function_name r = nm)
             (filter (\<lambda>nm. nm \<in> set (known_names lvl)) (level_functions lvl (m_config runner))) rs"
    and warned: "log w' = log w @ map (\<lambda>nm. (Warn, unknown_text lvl @ nm))
             (filter (\<lambda>nm. nm \<notin> set (known_names lvl)) (level_functions lvl (m_config runner)))"
    by blast
  from names one obtain r where "rs = [r]" and "''cblas_'' @ function_name r = known"
    by (auto simp: list_all2_Cons1)
  with run res warned show ?thesis
    by blast
qed

lemma example_room:
  assumes "level1_size cfg = Some 1000000" and "level2_size cfg = Some (1024, 1024)"
    and "level3_size cfg = Some (1024, 1024, 1024)" and "cfg_cycles cfg = 5"
  shows "level_room lvl (BenchmarkRunner_new cfg example_world) example_world"
  using assms
  by (cases lvl)
    (simp_all add: level_room_def fits_def flush_fits_def alloc_ok_def example_world_def
      BenchmarkRunner_new_def flush_buffer_size_def size_t_of_int_def)

theorem unknown_names_skipped_witness:
  "has_size Level1 (m_config (BenchmarkRunner_new
      (get_default\<lparr>level1_functions := [''CBLAS_DDOT'', ''cblas_daxpy'', ''dscal'']\<rparr>)
      example_world)) \<and>
   0 < sint (cfg_cycles (m_config (BenchmarkRunner_new
      (get_default\<lparr>level1_functions := [''CBLAS_DDOT'', ''cblas_daxpy'', ''dscal'']\<rparr>)
      example_world))) \<and>
   level_room Level1 (BenchmarkRunner_new
      (get_default\<lparr>level1_functions := [''CBLAS_DDOT'', ''cblas_daxpy'', ''dscal'']\<rparr>)
      example_world) example_world \<and>
   filter (\<lambda>nm. nm \<in> set (known_names Level1))
     (level_functions Level1 (m_config (BenchmarkRunner_new
        (get_default\<lparr>level1_functions := [''CBLAS_DDOT'', ''cblas_daxpy'', ''dscal'']\<rparr>)
        example_world))) = [''cblas_daxpy''] \<and>
   (\<exists>r report' w'.
      run_level Level1 (BenchmarkRunner_new
          (get_default\<lparr>level1_functions := [''CBLAS_DDOT'', ''cblas_daxpy'', ''dscal'']\<rparr>)
          example_world)
        \<lparr>system_info = collected example_world, level1_results = [], level2_results = [],
         level3_results = [], config = get_default\<rparr> example_world = Inr (report', w') \<and>
      level_results Level1 report' = [r] \<and>
      function_name r = ''daxpy'' \<and>
      log w' = [(Warn, ''Unknown Level 1 function: CBLAS_DDOT''),
                (Warn, ''Unknown Level 1 function: dscal'')])"
proof -
  let ?runner = "BenchmarkRunner_new
      (get_default\<lparr>level1_functions := [''CBLAS_DDOT'', ''cblas_daxpy'', ''dscal'']\<rparr>)
      example_world"
  have size: "has_size Level1 (m_config ?runner)"
    by (simp add: get_default_def)
  have cycles: "0 < sint (cfg_cycles (m_config ?runner))"
    by (simp add: get_default_def)
  have one: "filter (\<lambda>nm. nm \<in> set (known_names Level1))
     (level_functions Level1 (m_config ?runner)) = [''cblas_daxpy'']"
    by simp
  have lg: "log example_world = []"
    by (simp add: example_world_def)
  have room: "level_room Level1 ?runner example_world"
    by (rule example_room) (simp_all add: get_default_def)
  show ?thesis
    using size cycles room one
      unknown_names_skipped [OF size cycles room one,
        of "\<lparr>system_info = collected example_world, level1_results = [], level2_results = [],
         level3_results = [], config = get_default\<rparr>"]
    by (simp add: lg)
qed

section \<open>Consistency of the results\<close>











end
